theory Spec2Isabelle
  imports Complex_Main
begin

section \<open>JavaScript numbers\<close>

text \<open>
  A JavaScript number is an IEEE-754 double: a finite value, \<open>NaN\<close>, \<open>Infinity\<close> or
  \<open>-Infinity\<close>. A finite double is modelled by the real number it denotes, and the two
  zeros are identified (with the sign of \<open>+0\<close>).
\<close>

datatype jsnum = Num real | PosInf | NegInf | NaN

text \<open>
  What the language leaves to the engine is a parameter of the model, the platform:
  \<^item> \<open>fl\<close>, the rounding of a real number to a double. The result of \<open>+\<close>, \<open>-\<close>, \<open>*\<close>,
    \<open>/\<close> and \<open>Math.sqrt\<close> on finite arguments is \<open>fl\<close> of the exact result, the value of a
    decimal literal or of a decimal text read by \<open>parseFloat\<close> is \<open>fl\<close> of the decimal;
    \<open>fl\<close> gives an infinity when the exact result is beyond the range of the doubles;
  \<^item> \<open>m_sin\<close>, \<open>m_cos\<close> and \<open>m_atan2\<close>, the values of \<open>Math.sin\<close>, \<open>Math.cos\<close> and
    \<open>Math.atan2\<close> on finite arguments, which the language calls implementation-approximated.

  Every function of the program that computes with numbers takes the platform as its first
  argument. Comparisons, negation, \<open>%\<close>, \<open>Math.round\<close>, \<open>Math.floor\<close>, \<open>Math.max\<close> and
  \<open>toFixed\<close> are exact on doubles and do not depend on the platform.
\<close>

record platform =
  fl :: "real \<Rightarrow> jsnum"
  m_sin :: "real \<Rightarrow> jsnum"
  m_cos :: "real \<Rightarrow> jsnum"
  m_atan2 :: "real \<Rightarrow> real \<Rightarrow> jsnum"

fun isNaN :: "jsnum \<Rightarrow> bool" where
  "isNaN NaN = True"
| "isNaN _ = False"

fun js_neg :: "jsnum \<Rightarrow> jsnum" where
  "js_neg (Num a) = Num (- a)"
| "js_neg PosInf = NegInf"
| "js_neg NegInf = PosInf"
| "js_neg NaN = NaN"

text \<open>\<open>a + b\<close>\<close>

fun js_add :: "platform \<Rightarrow> jsnum \<Rightarrow> jsnum \<Rightarrow> jsnum" where
  "js_add js (Num a) (Num b) = fl js (a + b)"
| "js_add js NaN _ = NaN"
| "js_add js _ NaN = NaN"
| "js_add js PosInf NegInf = NaN"
| "js_add js NegInf PosInf = NaN"
| "js_add js PosInf _ = PosInf"
| "js_add js _ PosInf = PosInf"
| "js_add js NegInf _ = NegInf"
| "js_add js _ NegInf = NegInf"

text \<open>\<open>a - b\<close>\<close>

definition js_sub :: "platform \<Rightarrow> jsnum \<Rightarrow> jsnum \<Rightarrow> jsnum" where
  "js_sub js a b = js_add js a (js_neg b)"

text \<open>The infinity carrying the sign of a non-zero real.\<close>

definition inf_of_sign :: "real \<Rightarrow> jsnum" where
  "inf_of_sign s = (if 0 < s then PosInf else NegInf)"

text \<open>\<open>a * b\<close>: an infinity times zero is \<open>NaN\<close>.\<close>

fun js_mul :: "platform \<Rightarrow> jsnum \<Rightarrow> jsnum \<Rightarrow> jsnum" where
  "js_mul js (Num a) (Num b) = fl js (a * b)"
| "js_mul js NaN _ = NaN"
| "js_mul js _ NaN = NaN"
| "js_mul js PosInf (Num b) = (if b = 0 then NaN else inf_of_sign b)"
| "js_mul js NegInf (Num b) = (if b = 0 then NaN else inf_of_sign (- b))"
| "js_mul js (Num a) PosInf = (if a = 0 then NaN else inf_of_sign a)"
| "js_mul js (Num a) NegInf = (if a = 0 then NaN else inf_of_sign (- a))"
| "js_mul js PosInf PosInf = PosInf"
| "js_mul js NegInf NegInf = PosInf"
| "js_mul js PosInf NegInf = NegInf"
| "js_mul js NegInf PosInf = NegInf"

text \<open>\<open>a / b\<close>: zero over zero and infinity over infinity are \<open>NaN\<close>; a non-zero finite
  number over zero is the infinity of its sign.\<close>

fun js_div :: "platform \<Rightarrow> jsnum \<Rightarrow> jsnum \<Rightarrow> jsnum" where
  "js_div js (Num a) (Num b) =
     (if b \<noteq> 0 then fl js (a / b) else if a = 0 then NaN else inf_of_sign a)"
| "js_div js NaN _ = NaN"
| "js_div js _ NaN = NaN"
| "js_div js (Num a) PosInf = Num 0"
| "js_div js (Num a) NegInf = Num 0"
| "js_div js PosInf (Num b) = (if 0 \<le> b then PosInf else NegInf)"
| "js_div js NegInf (Num b) = (if 0 \<le> b then NegInf else PosInf)"
| "js_div js PosInf PosInf = NaN"
| "js_div js PosInf NegInf = NaN"
| "js_div js NegInf PosInf = NaN"
| "js_div js NegInf NegInf = NaN"

text \<open>The truncation of a real towards zero, and \<open>a % b\<close> (the remainder has the sign of
  the dividend; it is a double whenever \<open>a\<close> and \<open>b\<close> are).\<close>

definition trunc :: "real \<Rightarrow> int" where
  "trunc x = (if 0 \<le> x then \<lfloor>x\<rfloor> else \<lceil>x\<rceil>)"

fun js_mod :: "jsnum \<Rightarrow> jsnum \<Rightarrow> jsnum" where
  "js_mod (Num a) (Num b) = (if b = 0 then NaN else Num (a - b * of_int (trunc (a / b))))"
| "js_mod (Num a) PosInf = Num a"
| "js_mod (Num a) NegInf = Num a"
| "js_mod _ _ = NaN"

text \<open>\<open>a < b\<close>, \<open>a <= b\<close> and \<open>a > b\<close>: every comparison with \<open>NaN\<close> is false.\<close>

fun js_lt :: "jsnum \<Rightarrow> jsnum \<Rightarrow> bool" where
  "js_lt (Num a) (Num b) = (a < b)"
| "js_lt NaN _ = False"
| "js_lt _ NaN = False"
| "js_lt _ NegInf = False"
| "js_lt PosInf _ = False"
| "js_lt NegInf _ = True"
| "js_lt _ PosInf = True"

definition js_le :: "jsnum \<Rightarrow> jsnum \<Rightarrow> bool" where
  "js_le a b = (js_lt a b \<or> (\<not> isNaN a \<and> a = b))"

definition js_gt :: "jsnum \<Rightarrow> jsnum \<Rightarrow> bool" where
  "js_gt a b = js_lt b a"

text \<open>\<open>!x\<close> for a number: zero and \<open>NaN\<close> are falsy.\<close>

fun js_falsy :: "jsnum \<Rightarrow> bool" where
  "js_falsy (Num a) = (a = 0)"
| "js_falsy NaN = True"
| "js_falsy _ = False"

text \<open>\<open>Math.round\<close> gives the closest integer, the larger one of two equally close;
  \<open>Math.floor\<close> rounds down; \<open>Math.max\<close> of two arguments.\<close>

fun Math_round :: "jsnum \<Rightarrow> jsnum" where
  "Math_round (Num a) = Num (of_int \<lfloor>a + 1 / 2\<rfloor>)"
| "Math_round x = x"

fun Math_floor :: "jsnum \<Rightarrow> jsnum" where
  "Math_floor (Num a) = Num (of_int \<lfloor>a\<rfloor>)"
| "Math_floor x = x"

definition Math_max :: "jsnum \<Rightarrow> jsnum \<Rightarrow> jsnum" where
  "Math_max a b = (if isNaN a \<or> isNaN b then NaN else if js_lt a b then b else a)"

text \<open>\<open>Math.PI\<close> is the double closest to \<open>pi\<close>. \<open>Math.sin\<close> and \<open>Math.cos\<close> of an
  infinity or of \<open>NaN\<close> are \<open>NaN\<close>.\<close>

definition Math_PI :: "platform \<Rightarrow> jsnum" where
  "Math_PI js = fl js pi"

fun Math_sin :: "platform \<Rightarrow> jsnum \<Rightarrow> jsnum" where
  "Math_sin js (Num a) = m_sin js a"
| "Math_sin js _ = NaN"

fun Math_cos :: "platform \<Rightarrow> jsnum \<Rightarrow> jsnum" where
  "Math_cos js (Num a) = m_cos js a"
| "Math_cos js _ = NaN"

fun Math_sqrt :: "platform \<Rightarrow> jsnum \<Rightarrow> jsnum" where
  "Math_sqrt js (Num a) = (if a < 0 then NaN else fl js (sqrt a))"
| "Math_sqrt js PosInf = PosInf"
| "Math_sqrt js _ = NaN"

text \<open>The angle of the point \<open>(x, y)\<close> in \<open>(-pi, pi]\<close>, which \<open>Math.atan2(y, x)\<close>
  approximates.\<close>

definition atan2 :: "real \<Rightarrow> real \<Rightarrow> real" where
  "atan2 y x =
     (if 0 < x then arctan (y / x)
      else if x < 0 then (if 0 \<le> y then arctan (y / x) + pi else arctan (y / x) - pi)
      else if 0 < y then pi / 2
      else if y < 0 then - (pi / 2)
      else 0)"

fun Math_atan2 :: "platform \<Rightarrow> jsnum \<Rightarrow> jsnum \<Rightarrow> jsnum" where
  "Math_atan2 js (Num y) (Num x) = m_atan2 js y x"
| "Math_atan2 js NaN _ = NaN"
| "Math_atan2 js _ NaN = NaN"
| "Math_atan2 js (Num y) PosInf = Num 0"
| "Math_atan2 js (Num y) NegInf = fl js (if 0 \<le> y then pi else - pi)"
| "Math_atan2 js PosInf (Num x) = fl js (pi / 2)"
| "Math_atan2 js NegInf (Num x) = fl js (- (pi / 2))"
| "Math_atan2 js PosInf PosInf = fl js (pi / 4)"
| "Math_atan2 js PosInf NegInf = fl js (3 * pi / 4)"
| "Math_atan2 js NegInf PosInf = fl js (- (pi / 4))"
| "Math_atan2 js NegInf NegInf = fl js (- (3 * pi / 4))"

subsection \<open>Platforms\<close>

text \<open>
  The platform of exact arithmetic: nothing is rounded, and the three functions of \<open>Math\<close>
  are the real functions. The program is evaluated on it at sample inputs.
\<close>

definition exact_platform :: platform where
  "exact_platform = \<lparr>fl = Num, m_sin = (\<lambda>x. Num (sin x)), m_cos = (\<lambda>x. Num (cos x)),
            m_atan2 = (\<lambda>y x. Num (atan2 y x))\<rparr>"

text \<open>
  Three facts of rounding to the nearest double, which is what IEEE-754 prescribes for the
  arithmetic of JavaScript and for the reading of decimals: it is monotone; it leaves the
  integers up to \<open>2 ^ 53\<close> as they are; and in the range of the normal doubles, from
  \<open>2 ^ -1022\<close> to \<open>2 ^ 1023\<close>, the result is finite with a relative error of at most
  \<open>2 ^ -53\<close>. Monotonicity is stated with \<open><=\<close> on numbers, so \<open>fl\<close> is never \<open>NaN\<close>.
\<close>

definition ieee_double :: "platform \<Rightarrow> bool" where
  "ieee_double js \<longleftrightarrow>
     (\<forall>x y. x \<le> y \<longrightarrow> js_le (fl js x) (fl js y))
     \<and> (\<forall>k::int. \<bar>k\<bar> \<le> 2 ^ 53 \<longrightarrow> fl js (of_int k) = Num (of_int k))
     \<and> (\<forall>x. 1 / 2 ^ 1022 \<le> \<bar>x\<bar> \<and> \<bar>x\<bar> \<le> 2 ^ 1023
            \<longrightarrow> (\<exists>y. fl js x = Num y \<and> \<bar>y - x\<bar> \<le> \<bar>x\<bar> / 2 ^ 53))"

text \<open>Rounding to the nearest double is symmetric about zero, and so is the sine of the
  engines (it is computed from the absolute value of the argument).\<close>

definition sign_symmetric :: "platform \<Rightarrow> bool" where
  "sign_symmetric js \<longleftrightarrow>
     (\<forall>x. fl js (- x) = js_neg (fl js x)) \<and> (\<forall>x. m_sin js (- x) = js_neg (m_sin js x))"

subsection \<open>Numbers printed by \<open>toFixed\<close> and read back by \<open>parseFloat\<close>\<close>

text \<open>
  \<open>x.toFixed(f)\<close> returns a string. \<open>Fixed n f\<close> stands for the decimal numeral of
  \<open>n / 10 ^ f\<close> written with exactly \<open>f\<close> fraction digits, \<open>NegZero f\<close> for the text
  \<open>-0.0...0\<close> with \<open>f\<close> fraction digits, and the other three constructors for the strings
  \<open>NaN\<close>, \<open>Infinity\<close> and \<open>-Infinity\<close>. \<open>toFixed\<close> takes the sign off, picks the integer \<open>n\<close>
  closest to \<open>x * 10 ^ f\<close>, the larger one of two equally close, and puts the sign back,
  also in front of a zero; this is exact, on the real number the double denotes. (From
  \<open>10 ^ 21\<close> on JavaScript prints the same number in exponent form.) \<open>parseFloat\<close> reads
  such a text back as the double closest to the decimal; on a number it is the identity.
\<close>

datatype numstr = Fixed int nat | NegZero nat | StrPosInf | StrNegInf | StrNaN

fun toFixed :: "jsnum \<Rightarrow> nat \<Rightarrow> numstr" where
  "toFixed (Num x) f =
     (if x < 0
      then (if \<lfloor>- x * 10 ^ f + 1 / 2\<rfloor> = 0 then NegZero f else Fixed (- \<lfloor>- x * 10 ^ f + 1 / 2\<rfloor>) f)
      else Fixed \<lfloor>x * 10 ^ f + 1 / 2\<rfloor> f)"
| "toFixed PosInf f = StrPosInf"
| "toFixed NegInf f = StrNegInf"
| "toFixed NaN f = StrNaN"

fun parseFloat :: "platform \<Rightarrow> numstr \<Rightarrow> jsnum" where
  "parseFloat js (Fixed n f) = fl js (of_int n / 10 ^ f)"
| "parseFloat js (NegZero f) = Num 0"
| "parseFloat js StrPosInf = PosInf"
| "parseFloat js StrNegInf = NegInf"
| "parseFloat js StrNaN = NaN"

section \<open>Geodesy\<close>

text \<open>\<open>toRad\<close> and \<open>calculateDistance\<close> of the transport module (the recommendation module
  has the same two functions).\<close>

definition toRad :: "platform \<Rightarrow> jsnum \<Rightarrow> jsnum" where
  "toRad js degrees = js_mul js degrees (js_div js (Math_PI js) (Num 180))"

definition calculateDistance :: "platform \<Rightarrow> jsnum \<Rightarrow> jsnum \<Rightarrow> jsnum \<Rightarrow> jsnum \<Rightarrow> jsnum" where
  "calculateDistance js lat1 lng1 lat2 lng2 =
     (let R = Num 6371;
          dLat = toRad js (js_sub js lat2 lat1);
          dLng = toRad js (js_sub js lng2 lng1);
          a = js_add js
                (js_mul js (Math_sin js (js_div js dLat (Num 2))) (Math_sin js (js_div js dLat (Num 2))))
                (js_mul js
                  (js_mul js
                    (js_mul js (Math_cos js (toRad js lat1)) (Math_cos js (toRad js lat2)))
                    (Math_sin js (js_div js dLng (Num 2))))
                  (Math_sin js (js_div js dLng (Num 2))));
          c = js_mul js (Num 2) (Math_atan2 js (Math_sqrt js a) (Math_sqrt js (js_sub js (Num 1) a)))
      in js_mul js R c)"

text \<open>Degrees to radians on reals, the haversine term \<open>a\<close> and the distance on finite
  arguments, as real functions.\<close>

definition rad :: "real \<Rightarrow> real" where
  "rad d = d * (pi / 180)"

definition hav_a :: "real \<Rightarrow> real \<Rightarrow> real \<Rightarrow> real \<Rightarrow> real" where
  "hav_a lat1 lng1 lat2 lng2 =
     sin (rad (lat2 - lat1) / 2) * sin (rad (lat2 - lat1) / 2)
     + cos (rad lat1) * cos (rad lat2) * sin (rad (lng2 - lng1) / 2) * sin (rad (lng2 - lng1) / 2)"

definition hav_km :: "real \<Rightarrow> real \<Rightarrow> real \<Rightarrow> real \<Rightarrow> real" where
  "hav_km lat1 lng1 lat2 lng2 =
     6371 * (2 * atan2 (sqrt (hav_a lat1 lng1 lat2 lng2)) (sqrt (1 - hav_a lat1 lng1 lat2 lng2)))"


section \<open>JavaScript strings and arrays\<close>

text \<open>
  A JavaScript string is a sequence of UTF-16 code units. Texts that hold Korean are lists
  of code units (\<open>jsstring\<close>); identifiers that are ASCII throughout the source (profile
  identifiers, icon classes, criteria, cost levels, categories) are HOL strings.
  An array of numbers is a list; reading past its end gives \<open>undefined\<close>, which every
  arithmetic operation and \<open>parseFloat\<close> turn into \<open>NaN\<close>.
\<close>

type_synonym jsstring = "nat list"

type_synonym coord = "jsnum list"

definition js_nth :: "coord \<Rightarrow> nat \<Rightarrow> jsnum" where
  "js_nth xs i = (if i < length xs then xs ! i else NaN)"

text \<open>\<open>a || b\<close> on numbers.\<close>

definition js_or :: "jsnum \<Rightarrow> jsnum \<Rightarrow> jsnum" where
  "js_or a b = (if js_falsy a then b else a)"

text \<open>\<open>Array.prototype.reduce\<close> without an initial value: the first element starts the
  accumulator; on an empty array it raises a \<open>TypeError\<close> (\<open>None\<close>).\<close>

fun reduce :: "('a \<Rightarrow> 'a \<Rightarrow> 'a) \<Rightarrow> 'a list \<Rightarrow> 'a option" where
  "reduce f [] = None"
| "reduce f (x # xs) = Some (foldl f x xs)"

section \<open>Routes\<close>

text \<open>One turn instruction of a route.\<close>

record step =
  step_instruction :: jsstring
  step_distance :: numstr
  step_duration :: jsnum

text \<open>The text made by \<open>formatDuration\<close>: hours and minutes, or minutes alone, each
  followed by its Korean unit.\<close>

datatype duration_text = HoursMinutes jsnum jsnum | MinutesOnly jsnum

text \<open>What \<open>getRoute\<close> returns, and the route record \<open>getMultipleRoutes\<close> makes of it by
  adding the display name, the icon and the classification. A route of the provider has no
  \<open>isFallback\<close> property, which reads as false.\<close>

record route_core =
  coordinates :: "coord list"
  distance :: numstr
  duration :: duration_text
  durationMinutes :: jsnum
  instructions :: "step list"
  profile :: string

record route = route_core +
  name :: jsstring
  icon :: string
  routeType :: string
  isFallback :: bool

definition formatDuration :: "platform \<Rightarrow> jsnum \<Rightarrow> duration_text" where
  "formatDuration js seconds =
     (let hours = Math_floor (js_div js seconds (Num 3600));
          minutes = Math_floor (js_div js (js_mod seconds (Num 3600)) (Num 60))
      in if js_gt hours (Num 0) then HoursMinutes hours minutes else MinutesOnly minutes)"

text \<open>\<open>getRouteType\<close> reads the two properties \<open>distance\<close> and \<open>durationMinutes\<close> of its
  argument.\<close>

definition getRouteType :: "platform \<Rightarrow> numstr \<Rightarrow> jsnum \<Rightarrow> string" where
  "getRouteType js route_distance route_durationMinutes =
     (let distance = parseFloat js route_distance;
          duration = route_durationMinutes
      in if js_lt duration (Num 60) then ''fastest''
         else if js_lt distance (Num 10) then ''cheapest''
         else ''balanced'')"

subsection \<open>Errors\<close>

text \<open>The reasons for which \<open>createFallbackRoute\<close> throws, and the errors of the transport
  module. \<open>OtherError\<close> stands for any error \<open>getRoute\<close> passes on unchanged (a body that
  is not JSON, a response without segments, another rejection of \<open>fetch\<close>).\<close>

datatype fallback_error =
    InvalidArrayLength
  | InvalidSpeed
  | CoordinatesNaN
  | InvalidDistance
  | InvalidDuration

datatype error =
    ApiError nat
  | ApiTimeout
  | NetworkError
  | NoRouteFound
  | OtherError
  | FallbackFailed fallback_error
  | InvalidCoordinates
  | NoRoutesCalculated

subsection \<open>The fallback route\<close>

text \<open>The instruction text \<open>name\<close> followed by \<open>(eu)ro idong\<close>, "travel by".\<close>

definition fallbackInstruction :: "jsstring \<Rightarrow> jsstring" where
  "fallbackInstruction name' = name' @ [40, 0xC73C, 41, 0xB85C, 32, 0xC774, 0xB3D9]"

text \<open>
  \<open>createFallbackRoute\<close> of the current transport module. Its arguments are arrays, so the
  tests for a missing argument and for \<open>Array.isArray\<close> pass; \<open>parseFloat\<close> of a number
  is that number. Every error thrown in its body is caught and thrown again as
  "Failed to create fallback route".
\<close>

definition createFallbackRoute ::
    "platform \<Rightarrow> coord \<Rightarrow> coord \<Rightarrow> jsstring \<Rightarrow> string \<Rightarrow> string \<Rightarrow> jsnum \<Rightarrow> error + route" where
  "createFallbackRoute js start end' name' icon' profile' speed =
     (if length start \<noteq> 2 \<or> length end' \<noteq> 2 then Inl (FallbackFailed InvalidArrayLength)
      else if js_falsy speed \<or> js_le speed (Num 0) then Inl (FallbackFailed InvalidSpeed)
      else
        let startLng = js_nth start 0;
            startLat = js_nth start 1;
            endLng = js_nth end' 0;
            endLat = js_nth end' 1
        in if isNaN startLng \<or> isNaN startLat \<or> isNaN endLng \<or> isNaN endLat
           then Inl (FallbackFailed CoordinatesNaN)
           else
             let distance' = calculateDistance js startLat startLng endLat endLng
             in if isNaN distance' \<or> js_le distance' (Num 0)
                then Inl (FallbackFailed InvalidDistance)
                else
                  let travelDistance = js_mul js distance' (fl js 1.3);
                      durationMinutes' = Math_round (js_mul js (js_div js travelDistance speed) (Num 60))
                  in if isNaN durationMinutes' \<or> js_le durationMinutes' (Num 0)
                     then Inl (FallbackFailed InvalidDuration)
                     else Inr
                       \<lparr>coordinates = [start, end'],
                        distance = toFixed travelDistance 2,
                        duration = formatDuration js (js_mul js durationMinutes' (Num 60)),
                        durationMinutes = durationMinutes',
                        instructions =
                          [\<lparr>step_instruction = fallbackInstruction name',
                            step_distance = toFixed travelDistance 2,
                            step_duration = durationMinutes'\<rparr>],
                        profile = profile',
                        name = name',
                        icon = icon',
                        routeType = getRouteType js (toFixed travelDistance 2) durationMinutes',
                        isFallback = True\<rparr>)"


text \<open>
  The fallback route in the words of the specification: the great-circle distance between
  origin and destination (each a pair of longitude and latitude) inflated by 1.3, printed
  with two decimals; the minutes \<open>round(fallbackDistance / profileSpeed * 60)\<close>; the two end
  points as the only coordinates; one instruction; and the fallback flag.
\<close>

definition spec_fallback_route :: "platform \<Rightarrow> coord \<Rightarrow> coord \<Rightarrow> jsnum \<Rightarrow> route \<Rightarrow> bool" where
  "spec_fallback_route js origin destination profileSpeed r \<longleftrightarrow>
     (let fallbackDistance =
            js_mul js (calculateDistance js (js_nth origin 1) (js_nth origin 0)
                      (js_nth destination 1) (js_nth destination 0)) (fl js 1.3)
      in distance r = toFixed fallbackDistance 2
         \<and> durationMinutes r = Math_round (js_mul js (js_div js fallbackDistance profileSpeed) (Num 60))
         \<and> coordinates r = [origin, destination]
         \<and> length (instructions r) = 1
         \<and> isFallback r)"

subsection \<open>The routing provider\<close>

text \<open>
  The answer of the routing provider to one request, as \<open>getRoute\<close> sees it: the request
  is aborted by the 5 second timer, \<open>fetch\<close> rejects (the flag says whether the message
  contains "Failed to fetch"), or a response arrives with its \<open>ok\<close> flag, its status and
  its body.
\<close>

record ors_summary =
  summary_distance :: jsnum
  summary_duration :: jsnum

record ors_step =
  ors_instruction :: jsstring
  ors_distance :: jsnum
  ors_duration :: jsnum

record ors_route =
  geometry_coordinates :: "coord list"
  summary :: ors_summary
  segments :: "ors_step list list"

datatype ors_body = NotJson | Json "ors_route list option"

datatype fetch_outcome = Aborted | Rejected bool | Response bool nat ors_body

definition getRoute :: "platform \<Rightarrow> fetch_outcome \<Rightarrow> string \<Rightarrow> error + route_core" where
  "getRoute js outcome profile' =
     (case outcome of
        Aborted \<Rightarrow> Inl ApiTimeout
      | Rejected failed_to_fetch \<Rightarrow> Inl (if failed_to_fetch then NetworkError else OtherError)
      | Response ok status body \<Rightarrow>
          if \<not> ok then Inl (ApiError status)
          else (case body of
                  NotJson \<Rightarrow> Inl OtherError
                | Json None \<Rightarrow> Inl NoRouteFound
                | Json (Some []) \<Rightarrow> Inl NoRouteFound
                | Json (Some (r # _)) \<Rightarrow>
                    (case segments r of
                       [] \<Rightarrow> Inl OtherError
                     | steps # _ \<Rightarrow> Inr
                         \<lparr>coordinates = geometry_coordinates r,
                          distance = toFixed (js_div js (summary_distance (summary r)) (Num 1000)) 2,
                          duration = formatDuration js (summary_duration (summary r)),
                          durationMinutes = Math_round (js_div js (summary_duration (summary r)) (Num 60)),
                          instructions =
                            map (\<lambda>s. \<lparr>step_instruction = ors_instruction s,
                                      step_distance = toFixed (js_div js (ors_distance s) (Num 1000)) 2,
                                      step_duration = Math_round (js_div js (ors_duration s) (Num 60))\<rparr>)
                                steps,
                          profile = profile'\<rparr>)))"

subsection \<open>\<open>getMultipleRoutes\<close>\<close>

record profile_spec =
  p_profile :: string
  p_name :: jsstring
  p_icon :: string
  p_speed :: jsnum

definition profiles :: "profile_spec list" where
  "profiles =
     [\<lparr>p_profile = ''driving-car'', p_name = [0xC790, 0xB3D9, 0xCC28],
       p_icon = ''fa-car'', p_speed = Num 60\<rparr>,
      \<lparr>p_profile = ''foot-walking'', p_name = [0xB3C4, 0xBCF4],
       p_icon = ''fa-person-walking'', p_speed = Num 5\<rparr>,
      \<lparr>p_profile = ''cycling-regular'', p_name = [0xC790, 0xC804, 0xAC70],
       p_icon = ''fa-bicycle'', p_speed = Num 15\<rparr>]"

text \<open>
  The asynchronous function mapped over the profiles: the route of the provider, or on any
  error of \<open>getRoute\<close> the fallback route, or \<open>null\<close> (\<open>None\<close>) when the fallback cannot be
  built either. The provider is a function from the requested profile to its answer for
  the two end points.
\<close>

definition routePromise ::
    "platform \<Rightarrow> (string \<Rightarrow> fetch_outcome) \<Rightarrow> coord \<Rightarrow> coord \<Rightarrow> profile_spec \<Rightarrow> route option" where
  "routePromise js provider start end' p =
     (case getRoute js (provider (p_profile p)) (p_profile p) of
        Inr r \<Rightarrow> Some (route_core.extend r
                   (route.fields (p_name p) (p_icon p)
                      (getRouteType js (distance r) (durationMinutes r)) False))
      | Inl error \<Rightarrow>
          (case createFallbackRoute js start end' (p_name p) (p_icon p) (p_profile p) (p_speed p) of
             Inr fallbackRoute \<Rightarrow> Some fallbackRoute
           | Inl fallbackError \<Rightarrow> None))"

text \<open>\<open>getMultipleRoutes\<close>; a missing end point is \<open>None\<close>. The three promises do not share
  state, so awaiting them all is the map over the profiles.\<close>

definition getMultipleRoutes ::
    "platform \<Rightarrow> (string \<Rightarrow> fetch_outcome) \<Rightarrow> coord option \<Rightarrow> coord option \<Rightarrow> error + route list" where
  "getMultipleRoutes js provider start end' =
     (case (start, end') of
        (Some s, Some e) \<Rightarrow>
          if length s \<noteq> 2 \<or> length e \<noteq> 2 then Inl InvalidCoordinates
          else
            let routes = map (routePromise js provider s e) profiles;
                validRoutes = map the (filter (\<lambda>route. route \<noteq> None) routes)
            in if length validRoutes = 0 then Inl NoRoutesCalculated else Inr validRoutes
      | _ \<Rightarrow> Inl InvalidCoordinates)"

subsection \<open>Route cost and the optimal route\<close>

record route_cost =
  transport :: jsnum
  cost_distance :: jsnum

text \<open>\<open>calculateRouteCost\<close> of the transport module.\<close>

definition calculateRouteCost :: "platform \<Rightarrow> 'a route_core_scheme \<Rightarrow> route_cost" where
  "calculateRouteCost js route =
     (let distance' = parseFloat js (distance route);
          transportCost =
            (if profile route = ''driving-car'' then Math_round (js_mul js distance' (Num 150))
             else if profile route = ''foot-walking'' then Num 0
             else if profile route = ''cycling-regular'' then Num 0
             else Math_round (js_mul js (js_div js distance' (Num 10)) (Num 1000)))
      in \<lparr>transport = transportCost, cost_distance = distance'\<rparr>)"

text \<open>\<open>getOptimalRoute\<close>: a missing list of routes and a missing criterion are \<open>None\<close>; the
  result \<open>None\<close> is \<open>null\<close>.\<close>

definition getOptimalRoute :: "platform \<Rightarrow> route list option \<Rightarrow> string option \<Rightarrow> route option" where
  "getOptimalRoute js routes criteria =
     (case routes of
        None \<Rightarrow> None
      | Some rs \<Rightarrow>
          if length rs = 0 then None
          else
            let criteria' = (case criteria of None \<Rightarrow> ''balanced'' | Some c \<Rightarrow> c)
            in if criteria' = ''fastest'' then
                 reduce (\<lambda>best current.
                           if js_lt (durationMinutes current) (durationMinutes best)
                           then current else best) rs
               else if criteria' = ''cheapest'' then
                 reduce (\<lambda>best current.
                           let bestCost = transport (calculateRouteCost js best);
                               currentCost = transport (calculateRouteCost js current)
                           in if js_lt currentCost bestCost then current else best) rs
               else
                 reduce (\<lambda>best current.
                           let bestScore =
                                 js_add js (js_div js (durationMinutes best) (Num 60))
                                   (js_div js (transport (calculateRouteCost js best)) (Num 10000));
                               currentScore =
                                 js_add js (js_div js (durationMinutes current) (Num 60))
                                   (js_div js (transport (calculateRouteCost js current)) (Num 10000))
                           in if js_lt currentScore bestScore then current else best) rs)"

text \<open>
  The transport cost of a route and the composite score of the balanced criterion in the
  words of the specification: the distance in kilometres times the rate of the profile,
  rounded to the nearest integer, where the rate is 150 won per kilometre for driving, the
  cost of walking and of cycling is zero, and any other profile pays the tiered rate of
  public transport, 1000 won per 10 km; and the score is
  \<open>durationMinutes / 60 + transportCost / 10000\<close>.
\<close>

definition spec_transportCost :: "platform \<Rightarrow> 'a route_core_scheme \<Rightarrow> jsnum" where
  "spec_transportCost js r =
     (let distance_km = parseFloat js (distance r)
      in if profile r = ''driving-car'' then Math_round (js_mul js distance_km (Num 150))
         else if profile r = ''foot-walking'' \<or> profile r = ''cycling-regular'' then Num 0
         else Math_round (js_mul js (js_div js distance_km (Num 10)) (Num 1000)))"

definition spec_compositeScore :: "platform \<Rightarrow> 'a route_core_scheme \<Rightarrow> jsnum" where
  "spec_compositeScore js r =
     js_add js (js_div js (durationMinutes r) (Num 60)) (js_div js (spec_transportCost js r) (Num 10000))"


section \<open>Trip cost\<close>

text \<open>A point of interest, as \<open>processOverpassResults\<close> builds it; \<open>searchPOIs\<close> adds the
  distance from the centre.\<close>

record place =
  poi_id :: int
  poi_name :: jsstring
  poi_lat :: jsnum
  poi_lng :: jsnum
  poi_category :: string
  poi_description :: jsstring
  poi_tags :: "(string \<times> jsstring) list"
  poi_icon :: string
  poi_type :: string
  poi_distance :: "jsnum option"

text \<open>The constants \<open>COSTS\<close> of the cost module, in won.\<close>

definition COSTS_transport :: "(string \<times> jsnum) list" where
  "COSTS_transport =
     [(''driving-car'', Num 150), (''foot-walking'', Num 0), (''cycling-regular'', Num 0),
      (''public-transport'', Num 100)]"

definition COSTS_accommodation :: "(string \<times> jsnum) list" where
  "COSTS_accommodation = [(''budget'', Num 50000), (''standard'', Num 100000), (''luxury'', Num 300000)]"

definition COSTS_food :: "(string \<times> jsnum) list" where
  "COSTS_food = [(''budget'', Num 30000), (''standard'', Num 60000), (''luxury'', Num 150000)]"

definition COSTS_activities :: "(string \<times> jsnum) list" where
  "COSTS_activities =
     [(''nature'', Num 5000), (''culture'', Num 10000), (''food'', Num 15000),
      (''shopping'', Num 50000), (''history'', Num 8000), (''adventure'', Num 30000)]"

text \<open>A table entry used as a number: \<open>undefined\<close> becomes \<open>NaN\<close> in arithmetic and is
  falsy under \<open>||\<close>. The tables are plain objects: a key that names a property every object
  inherits from \<open>Object.prototype\<close> is answered by that property, a function or an object,
  and not by \<open>undefined\<close>. \<open>lookup_num\<close> is the lookup for every other key.\<close>

definition Object_prototype_keys :: "string list" where
  "Object_prototype_keys =
     [''constructor'', ''hasOwnProperty'', ''isPrototypeOf'', ''propertyIsEnumerable'',
      ''toLocaleString'', ''toString'', ''valueOf'', ''__proto__'', ''__defineGetter__'',
      ''__defineSetter__'', ''__lookupGetter__'', ''__lookupSetter__'']"

definition lookup_num :: "(string \<times> jsnum) list \<Rightarrow> string \<Rightarrow> jsnum" where
  "lookup_num table key = (case map_of table key of None \<Rightarrow> NaN | Some v \<Rightarrow> v)"

text \<open>\<open>calculateTransportCost\<close> of the cost module; \<open>None\<close> is a missing route.\<close>

definition calculateTransportCost :: "platform \<Rightarrow> route option \<Rightarrow> jsnum" where
  "calculateTransportCost js route =
     (case route of
        None \<Rightarrow> Num 0
      | Some r \<Rightarrow>
          let distance' = js_or (parseFloat js (distance r)) (Num 0);
              profile' = (if profile r = [] then ''driving-car'' else profile r);
              costPerKm = js_or (lookup_num COSTS_transport profile')
                                (lookup_num COSTS_transport ''public-transport'')
          in Math_round (js_mul js distance' costPerKm))"

definition calculateActivitiesCost :: "platform \<Rightarrow> place list option \<Rightarrow> jsnum" where
  "calculateActivitiesCost js places =
     (case places of
        None \<Rightarrow> Num 0
      | Some ps \<Rightarrow>
          if length ps = 0 then Num 0
          else foldl (\<lambda>total place.
                        let category = (if poi_category place = [] then ''culture''
                                        else poi_category place);
                            cost = js_or (lookup_num COSTS_activities category) (Num 10000)
                        in js_add js total cost)
                     (Num 0) ps)"

record cost_breakdown =
  transportPercent :: numstr
  accommodationPercent :: numstr
  foodPercent :: numstr
  activitiesPercent :: numstr

record trip_cost =
  tc_transport :: jsnum
  accommodation :: jsnum
  food :: jsnum
  activities :: jsnum
  total :: jsnum
  breakdown :: cost_breakdown

text \<open>
  \<open>calculateTripCost\<close>. The five arguments are the properties of \<open>params\<close>; a property
  that is missing is \<open>None\<close>, and \<open>duration\<close>, \<open>accommodationLevel\<close> and \<open>foodLevel\<close> then
  take their defaults 3, "standard" and "standard". A missing \<open>places\<close> takes the default
  \<open>[]\<close>.
\<close>

definition calculateTripCost ::
    "platform \<Rightarrow> route option \<Rightarrow> jsnum option \<Rightarrow> string option \<Rightarrow> string option \<Rightarrow> place list option
     \<Rightarrow> trip_cost" where
  "calculateTripCost js route duration' accommodationLevel foodLevel places =
     (let duration'' = (case duration' of None \<Rightarrow> Num 3 | Some d \<Rightarrow> d);
          accommodationLevel' = (case accommodationLevel of None \<Rightarrow> ''standard'' | Some l \<Rightarrow> l);
          foodLevel' = (case foodLevel of None \<Rightarrow> ''standard'' | Some l \<Rightarrow> l);
          places' = (case places of None \<Rightarrow> Some [] | Some ps \<Rightarrow> Some ps);
          transportCost = calculateTransportCost js route;
          nights = Math_max (Num 0) (js_sub js duration'' (Num 1));
          accommodationCost = js_mul js (lookup_num COSTS_accommodation accommodationLevel') nights;
          foodCost = js_mul js (lookup_num COSTS_food foodLevel') duration'';
          activitiesCost = calculateActivitiesCost js places';
          total' = js_add js (js_add js (js_add js transportCost accommodationCost) foodCost) activitiesCost
      in \<lparr>tc_transport = transportCost,
          accommodation = accommodationCost,
          food = foodCost,
          activities = activitiesCost,
          total = total',
          breakdown =
            \<lparr>transportPercent = toFixed (js_mul js (js_div js transportCost total') (Num 100)) 1,
             accommodationPercent = toFixed (js_mul js (js_div js accommodationCost total') (Num 100)) 1,
             foodPercent = toFixed (js_mul js (js_div js foodCost total') (Num 100)) 1,
             activitiesPercent = toFixed (js_mul js (js_div js activitiesCost total') (Num 100)) 1\<rparr>\<rparr>)"
section \<open>Address search\<close>

text \<open>
  \<open>toLowerCase\<close> on the code units \<open>A\<close> to \<open>Z\<close>; every other code unit is kept, which is
  what JavaScript does on Hangul syllables, the comma and the blank, the only code units
  of the table below, and on every script without case; cased letters outside ASCII are
  not modelled. \<open>trim\<close> removes white space and line terminators at both ends;
  \<open>includes\<close> looks for a contiguous occurrence.
\<close>

definition toLowerCase :: "jsstring \<Rightarrow> jsstring" where
  "toLowerCase s = map (\<lambda>c. if 65 \<le> c \<and> c \<le> 90 then c + 32 else c) s"

definition is_space :: "nat \<Rightarrow> bool" where
  "is_space c \<longleftrightarrow>
     c \<in> {9, 10, 11, 12, 13, 32, 0xA0, 0x1680, 0x2028, 0x2029, 0x202F, 0x205F, 0x3000, 0xFEFF}
     \<or> (0x2000 \<le> c \<and> c \<le> 0x200A)"

definition trim :: "jsstring \<Rightarrow> jsstring" where
  "trim s = rev (dropWhile is_space (rev (dropWhile is_space s)))"

fun js_includes :: "jsstring \<Rightarrow> jsstring \<Rightarrow> bool" where
  "js_includes [] needle = (needle = [])"
| "js_includes (c # cs) needle = (take (length needle) (c # cs) = needle \<or> js_includes cs needle)"

record city =
  city_name :: jsstring
  city_lat :: jsnum
  city_lng :: jsnum

record search_result =
  sr_name :: jsstring
  sr_lat :: jsnum
  sr_lng :: jsnum
  sr_type :: string
  sr_source :: string

text \<open>The table \<open>POPULAR_CITIES\<close> in the order of the source, which is the order
  \<open>Object.entries\<close> lists it in: 24 cities of Korea from Seoul to Sokcho, then 15 cities
  abroad from Tokyo to Sydney. The coordinates are the decimals of the source; the address
  search copies them and does not compute with them.\<close>

definition POPULAR_CITIES :: "(jsstring \<times> city) list" where
  "POPULAR_CITIES =
   [
    ([0xC11C, 0xC6B8],
     \<lparr>city_name = [0xC11C, 0xC6B8, 0xD2B9, 0xBCC4, 0xC2DC, 44, 32, 0xB300, 0xD55C, 0xBBFC, 0xAD6D],
      city_lat = Num 37.5665, city_lng = Num 126.9780\<rparr>),
    ([0xC11C, 0xC6B8, 0xC2DC],
     \<lparr>city_name = [0xC11C, 0xC6B8, 0xD2B9, 0xBCC4, 0xC2DC, 44, 32, 0xB300, 0xD55C, 0xBBFC, 0xAD6D],
      city_lat = Num 37.5665, city_lng = Num 126.9780\<rparr>),
    ([0xBD80, 0xC0B0],
     \<lparr>city_name = [0xBD80, 0xC0B0, 0xAD11, 0xC5ED, 0xC2DC, 44, 32, 0xB300, 0xD55C, 0xBBFC, 0xAD6D],
      city_lat = Num 35.1796, city_lng = Num 129.0756\<rparr>),
    ([0xC778, 0xCC9C],
     \<lparr>city_name = [0xC778, 0xCC9C, 0xAD11, 0xC5ED, 0xC2DC, 44, 32, 0xB300, 0xD55C, 0xBBFC, 0xAD6D],
      city_lat = Num 37.4563, city_lng = Num 126.7052\<rparr>),
    ([0xB300, 0xAD6C],
     \<lparr>city_name = [0xB300, 0xAD6C, 0xAD11, 0xC5ED, 0xC2DC, 44, 32, 0xB300, 0xD55C, 0xBBFC, 0xAD6D],
      city_lat = Num 35.8714, city_lng = Num 128.6014\<rparr>),
    ([0xB300, 0xC804],
     \<lparr>city_name = [0xB300, 0xC804, 0xAD11, 0xC5ED, 0xC2DC, 44, 32, 0xB300, 0xD55C, 0xBBFC, 0xAD6D],
      city_lat = Num 36.3504, city_lng = Num 127.3845\<rparr>),
    ([0xAD11, 0xC8FC],
     \<lparr>city_name = [0xAD11, 0xC8FC, 0xAD11, 0xC5ED, 0xC2DC, 44, 32, 0xB300, 0xD55C, 0xBBFC, 0xAD6D],
      city_lat = Num 35.1595, city_lng = Num 126.8526\<rparr>),
    ([0xC6B8, 0xC0B0],
     \<lparr>city_name = [0xC6B8, 0xC0B0, 0xAD11, 0xC5ED, 0xC2DC, 44, 32, 0xB300, 0xD55C, 0xBBFC, 0xAD6D],
      city_lat = Num 35.5384, city_lng = Num 129.3114\<rparr>),
    ([0xC81C, 0xC8FC],
     \<lparr>city_name = [0xC81C, 0xC8FC, 0xD2B9, 0xBCC4, 0xC790, 0xCE58, 0xB3C4, 44, 32, 0xB300, 0xD55C, 0xBBFC, 0xAD6D],
      city_lat = Num 33.4996, city_lng = Num 126.5312\<rparr>),
    ([0xC218, 0xC6D0],
     \<lparr>city_name = [0xC218, 0xC6D0, 0xC2DC, 44, 32, 0xACBD, 0xAE30, 0xB3C4, 44, 32, 0xB300, 0xD55C, 0xBBFC, 0xAD6D],
      city_lat = Num 37.2636, city_lng = Num 127.0286\<rparr>),
    ([0xCC3D, 0xC6D0],
     \<lparr>city_name = [0xCC3D, 0xC6D0, 0xC2DC, 44, 32, 0xACBD, 0xC0C1, 0xB0A8, 0xB3C4, 44, 32, 0xB300, 0xD55C, 0xBBFC, 0xAD6D],
      city_lat = Num 35.2280, city_lng = Num 128.6811\<rparr>),
    ([0xACE0, 0xC591],
     \<lparr>city_name = [0xACE0, 0xC591, 0xC2DC, 44, 32, 0xACBD, 0xAE30, 0xB3C4, 44, 32, 0xB300, 0xD55C, 0xBBFC, 0xAD6D],
      city_lat = Num 37.6584, city_lng = Num 126.8320\<rparr>),
    ([0xC6A9, 0xC778],
     \<lparr>city_name = [0xC6A9, 0xC778, 0xC2DC, 44, 32, 0xACBD, 0xAE30, 0xB3C4, 44, 32, 0xB300, 0xD55C, 0xBBFC, 0xAD6D],
      city_lat = Num 37.2411, city_lng = Num 127.1776\<rparr>),
    ([0xC131, 0xB0A8],
     \<lparr>city_name = [0xC131, 0xB0A8, 0xC2DC, 44, 32, 0xACBD, 0xAE30, 0xB3C4, 44, 32, 0xB300, 0xD55C, 0xBBFC, 0xAD6D],
      city_lat = Num 37.4201, city_lng = Num 127.1262\<rparr>),
    ([0xCCAD, 0xC8FC],
     \<lparr>city_name = [0xCCAD, 0xC8FC, 0xC2DC, 44, 32, 0xCDA9, 0xCCAD, 0xBD81, 0xB3C4, 44, 32, 0xB300, 0xD55C, 0xBBFC, 0xAD6D],
      city_lat = Num 36.6424, city_lng = Num 127.4890\<rparr>),
    ([0xC804, 0xC8FC],
     \<lparr>city_name = [0xC804, 0xC8FC, 0xC2DC, 44, 32, 0xC804, 0xB77C, 0xBD81, 0xB3C4, 44, 32, 0xB300, 0xD55C, 0xBBFC, 0xAD6D],
      city_lat = Num 35.8242, city_lng = Num 127.1480\<rparr>),
    ([0xCC9C, 0xC548],
     \<lparr>city_name = [0xCC9C, 0xC548, 0xC2DC, 44, 32, 0xCDA9, 0xCCAD, 0xB0A8, 0xB3C4, 44, 32, 0xB300, 0xD55C, 0xBBFC, 0xAD6D],
      city_lat = Num 36.8151, city_lng = Num 127.1139\<rparr>),
    ([0xC548, 0xC0B0],
     \<lparr>city_name = [0xC548, 0xC0B0, 0xC2DC, 44, 32, 0xACBD, 0xAE30, 0xB3C4, 44, 32, 0xB300, 0xD55C, 0xBBFC, 0xAD6D],
      city_lat = Num 37.3219, city_lng = Num 126.8309\<rparr>),
    ([0xC548, 0xC591],
     \<lparr>city_name = [0xC548, 0xC591, 0xC2DC, 44, 32, 0xACBD, 0xAE30, 0xB3C4, 44, 32, 0xB300, 0xD55C, 0xBBFC, 0xAD6D],
      city_lat = Num 37.3943, city_lng = Num 126.9568\<rparr>),
    ([0xD3EC, 0xD56D],
     \<lparr>city_name = [0xD3EC, 0xD56D, 0xC2DC, 44, 32, 0xACBD, 0xC0C1, 0xBD81, 0xB3C4, 44, 32, 0xB300, 0xD55C, 0xBBFC, 0xAD6D],
      city_lat = Num 36.0190, city_lng = Num 129.3435\<rparr>),
    ([0xAC15, 0xB989],
     \<lparr>city_name = [0xAC15, 0xB989, 0xC2DC, 44, 32, 0xAC15, 0xC6D0, 0xB3C4, 44, 32, 0xB300, 0xD55C, 0xBBFC, 0xAD6D],
      city_lat = Num 37.7519, city_lng = Num 128.8761\<rparr>),
    ([0xACBD, 0xC8FC],
     \<lparr>city_name = [0xACBD, 0xC8FC, 0xC2DC, 44, 32, 0xACBD, 0xC0C1, 0xBD81, 0xB3C4, 44, 32, 0xB300, 0xD55C, 0xBBFC, 0xAD6D],
      city_lat = Num 35.8562, city_lng = Num 129.2247\<rparr>),
    ([0xC5EC, 0xC218],
     \<lparr>city_name = [0xC5EC, 0xC218, 0xC2DC, 44, 32, 0xC804, 0xB77C, 0xB0A8, 0xB3C4, 44, 32, 0xB300, 0xD55C, 0xBBFC, 0xAD6D],
      city_lat = Num 34.7604, city_lng = Num 127.6622\<rparr>),
    ([0xC18D, 0xCD08],
     \<lparr>city_name = [0xC18D, 0xCD08, 0xC2DC, 44, 32, 0xAC15, 0xC6D0, 0xB3C4, 44, 32, 0xB300, 0xD55C, 0xBBFC, 0xAD6D],
      city_lat = Num 38.2070, city_lng = Num 128.5918\<rparr>),
    ([0xB3C4, 0xCFC4],
     \<lparr>city_name = [0xB3C4, 0xCFC4, 44, 32, 0xC77C, 0xBCF8],
      city_lat = Num 35.6762, city_lng = Num 139.6503\<rparr>),
    ([0xC624, 0xC0AC, 0xCE74],
     \<lparr>city_name = [0xC624, 0xC0AC, 0xCE74, 44, 32, 0xC77C, 0xBCF8],
      city_lat = Num 34.6937, city_lng = Num 135.5023\<rparr>),
    ([0xAD50, 0xD1A0],
     \<lparr>city_name = [0xAD50, 0xD1A0, 44, 32, 0xC77C, 0xBCF8],
      city_lat = Num 35.0116, city_lng = Num 135.7681\<rparr>),
    ([0xD6C4, 0xCFE0, 0xC624, 0xCE74],
     \<lparr>city_name = [0xD6C4, 0xCFE0, 0xC624, 0xCE74, 44, 32, 0xC77C, 0xBCF8],
      city_lat = Num 33.5904, city_lng = Num 130.4017\<rparr>),
    ([0xBCA0, 0xC774, 0xC9D5],
     \<lparr>city_name = [0xBCA0, 0xC774, 0xC9D5, 44, 32, 0xC911, 0xAD6D],
      city_lat = Num 39.9042, city_lng = Num 116.4074\<rparr>),
    ([0xC0C1, 0xD558, 0xC774],
     \<lparr>city_name = [0xC0C1, 0xD558, 0xC774, 44, 32, 0xC911, 0xAD6D],
      city_lat = Num 31.2304, city_lng = Num 121.4737\<rparr>),
    ([0xD64D, 0xCF69],
     \<lparr>city_name = [0xD64D, 0xCF69],
      city_lat = Num 22.3193, city_lng = Num 114.1694\<rparr>),
    ([0xD0C0, 0xC774, 0xBCA0, 0xC774],
     \<lparr>city_name = [0xD0C0, 0xC774, 0xBCA0, 0xC774, 44, 32, 0xB300, 0xB9CC],
      city_lat = Num 25.0330, city_lng = Num 121.5654\<rparr>),
    ([0xBC29, 0xCF55],
     \<lparr>city_name = [0xBC29, 0xCF55, 44, 32, 0xD0DC, 0xAD6D],
      city_lat = Num 13.7563, city_lng = Num 100.5018\<rparr>),
    ([0xC2F1, 0xAC00, 0xD3EC, 0xB974],
     \<lparr>city_name = [0xC2F1, 0xAC00, 0xD3EC, 0xB974],
      city_lat = Num 1.3521, city_lng = Num 103.8198\<rparr>),
    ([0xD30C, 0xB9AC],
     \<lparr>city_name = [0xD30C, 0xB9AC, 44, 32, 0xD504, 0xB791, 0xC2A4],
      city_lat = Num 48.8566, city_lng = Num 2.3522\<rparr>),
    ([0xB7F0, 0xB358],
     \<lparr>city_name = [0xB7F0, 0xB358, 44, 32, 0xC601, 0xAD6D],
      city_lat = Num 51.5074, city_lng = Num (-0.1278)\<rparr>),
    ([0xB274, 0xC695],
     \<lparr>city_name = [0xB274, 0xC695, 44, 32, 0xBBF8, 0xAD6D],
      city_lat = Num 40.7128, city_lng = Num (-74.0060)\<rparr>),
    ([0xB85C, 0xC2A4, 0xC564, 0xC824, 0xB808, 0xC2A4],
     \<lparr>city_name = [0xB85C, 0xC2A4, 0xC564, 0xC824, 0xB808, 0xC2A4, 44, 32, 0xBBF8, 0xAD6D],
      city_lat = Num 34.0522, city_lng = Num (-118.2437)\<rparr>),
    ([0xC2DC, 0xB4DC, 0xB2C8],
     \<lparr>city_name = [0xC2DC, 0xB4DC, 0xB2C8, 44, 32, 0xD638, 0xC8FC],
      city_lat = Num (-33.8688), city_lng = Num 151.2093\<rparr>)
   ]"

definition popularResult :: "city \<Rightarrow> search_result" where
  "popularResult c =
     \<lparr>sr_name = city_name c, sr_lat = city_lat c, sr_lng = city_lng c,
      sr_type = ''city'', sr_source = ''popular''\<rparr>"

text \<open>\<open>searchPopularCities\<close>: the two loops push the matching entries in table order.\<close>

definition searchPopularCities :: "jsstring \<Rightarrow> search_result list" where
  "searchPopularCities query =
     (if query = [] then []
      else
        let normalizedQuery = trim (toLowerCase query);
            exact = foldl (\<lambda>results (key, c).
                             if toLowerCase key = normalizedQuery
                             then results @ [popularResult c] else results)
                          [] POPULAR_CITIES;
            results =
              (if length exact = 0
               then foldl (\<lambda>results (key, c).
                             if js_includes (toLowerCase key) normalizedQuery
                                \<or> js_includes (toLowerCase (city_name c)) normalizedQuery
                             then results @ [popularResult c] else results)
                          exact POPULAR_CITIES
               else exact)
        in take 5 results)"

text \<open>
  The geocoding service: \<open>fetch\<close> rejects, or a response arrives with its \<open>ok\<close> flag, its
  status and its items (\<open>None\<close> when the body is not a JSON array). The latitude and the
  longitude of an item are decimal strings.
\<close>

record nominatim_item =
  display_name :: jsstring
  item_lat :: numstr
  item_lon :: numstr
  item_type :: string

datatype nominatim_outcome = NRejected | NResponse bool nat "nominatim_item list option"

text \<open>
  What \<open>searchAddress\<close> reads and changes outside itself: the clock \<open>Date.now()\<close> in
  milliseconds, the module variable \<open>lastNominatimRequest\<close>, the number of requests sent
  to the geocoding service and the milliseconds spent waiting in \<open>setTimeout\<close>.
\<close>

record world =
  clock :: int
  lastNominatimRequest :: int
  requests :: nat
  waited :: int

definition NOMINATIM_DELAY :: int where
  "NOMINATIM_DELAY = 1000"

text \<open>\<open>searchAddress\<close> of the current transport module.\<close>

definition searchAddress ::
    "platform \<Rightarrow> (jsstring \<Rightarrow> nominatim_outcome) \<Rightarrow> jsstring \<Rightarrow> world \<Rightarrow> search_result list \<times> world" where
  "searchAddress js service query w =
     (if query = [] \<or> length query < 2 then ([], w)
      else
        let popularResults = searchPopularCities query
        in if length popularResults > 0 then (popularResults, w)
           else
             let now = clock w;
                 timeSinceLastRequest = now - lastNominatimRequest w;
                 w1 = (if timeSinceLastRequest < NOMINATIM_DELAY
                       then w\<lparr>clock := clock w + (NOMINATIM_DELAY - timeSinceLastRequest),
                              waited := waited w + (NOMINATIM_DELAY - timeSinceLastRequest)\<rparr>
                       else w);
                 w2 = w1\<lparr>lastNominatimRequest := clock w1\<rparr>;
                 w3 = w2\<lparr>requests := requests w2 + 1\<rparr>
             in case service query of
                  NRejected \<Rightarrow> ([], w3)
                | NResponse ok status body \<Rightarrow>
                    if \<not> ok then ([], w3)
                    else (case body of
                            None \<Rightarrow> ([], w3)
                          | Some data \<Rightarrow>
                              (map (\<lambda>item. \<lparr>sr_name = display_name item,
                                            sr_lat = parseFloat js (item_lat item),
                                            sr_lng = parseFloat js (item_lon item),
                                            sr_type = item_type item,
                                            sr_source = ''api''\<rparr>) data,
                               w3)))"

section \<open>Deduplication of points of interest\<close>

text \<open>
  The key of \<open>deduplicatePOIs\<close> is the text of the name, an underscore, the latitude with
  four decimals, an underscore and the longitude with four decimals. It is kept as its
  three parts: no numeral contains an underscore, so two such texts are equal exactly when
  their parts are. The \<open>Map\<close> is the list of its entries in insertion order, which is the
  order \<open>seen.values()\<close> lists them in.
\<close>

type_synonym poi_key = "jsstring \<times> numstr \<times> numstr"

definition poi_key :: "place \<Rightarrow> poi_key" where
  "poi_key poi = (poi_name poi, toFixed (poi_lat poi) 4, toFixed (poi_lng poi) 4)"

fun seen_loop :: "('a \<Rightarrow> 'k) \<Rightarrow> ('k \<times> 'a) list \<Rightarrow> 'a list \<Rightarrow> ('k \<times> 'a) list" where
  "seen_loop key seen [] = seen"
| "seen_loop key seen (poi # pois) =
     seen_loop key (if key poi \<notin> fst ` set seen then seen @ [(key poi, poi)] else seen) pois"

definition deduplicatePOIs :: "place list \<Rightarrow> place list" where
  "deduplicatePOIs pois = map snd (seen_loop poi_key [] pois)"

text \<open>The invariant of the loop: the keys of the entries are distinct, and every entry
  is stored under its own key.\<close>

definition seen_ok :: "('a \<Rightarrow> 'k) \<Rightarrow> ('k \<times> 'a) list \<Rightarrow> bool" where
  "seen_ok key seen \<longleftrightarrow>
     distinct (map fst seen) \<and> map (\<lambda>e. key (snd e)) seen = map fst seen"

section \<open>Auxiliary notions for the selection of the optimal route\<close>

text \<open>The step of the three reductions of \<open>getOptimalRoute\<close>: the current route replaces
  the best one when its score is strictly less.\<close>

definition argmin_step :: "('a \<Rightarrow> jsnum) \<Rightarrow> 'a \<Rightarrow> 'a \<Rightarrow> 'a" where
  "argmin_step score best current = (if js_lt (score current) (score best) then current else best)"

section \<open>Sample data\<close>

text \<open>Three places for the evaluation of the deduplication: the first two have the same
  name and coordinates that agree after rounding to four decimals, the third has another
  name at the coordinates of the second.\<close>

definition sample_place_a :: place where
  "sample_place_a =
     \<lparr>poi_id = 1, poi_name = [0xACBD, 0xBCF5, 0xAD81], poi_lat = Num 37.57961, poi_lng = Num 126.97704,
      poi_category = ''history'', poi_description = [], poi_tags = [(''historic'', [])],
      poi_icon = ''fa-monument'', poi_type = ''node'', poi_distance = Some (Num 1.5)\<rparr>"

definition sample_place_b :: place where
  "sample_place_b =
     \<lparr>poi_id = 2, poi_name = [0xACBD, 0xBCF5, 0xAD81], poi_lat = Num 37.57963, poi_lng = Num 126.97698,
      poi_category = ''culture'', poi_description = [], poi_tags = [(''tourism'', [])],
      poi_icon = ''fa-landmark'', poi_type = ''way'', poi_distance = Some (Num 1.6)\<rparr>"

definition sample_place_c :: place where
  "sample_place_c =
     \<lparr>poi_id = 3, poi_name = [0xAD11, 0xD654, 0xBB38], poi_lat = Num 37.57963, poi_lng = Num 126.97698,
      poi_category = ''history'', poi_description = [], poi_tags = [],
      poi_icon = ''fa-monument'', poi_type = ''node'', poi_distance = None\<rparr>"

text \<open>Three routes between the same end points: on foot, by bicycle and by car.\<close>

definition sample_route_walk :: route where
  "sample_route_walk =
     \<lparr>coordinates = [[Num 126.978, Num 37.5665], [Num 127, Num 37.58]],
      distance = Fixed 250 2, duration = MinutesOnly (Num 30), durationMinutes = Num 30,
      instructions = [], profile = ''foot-walking'', name = [0xB3C4, 0xBCF4],
      icon = ''fa-person-walking'', routeType = ''fastest'', isFallback = False\<rparr>"

definition sample_route_cycle :: route where
  "sample_route_cycle =
     \<lparr>coordinates = [[Num 126.978, Num 37.5665], [Num 127, Num 37.58]],
      distance = Fixed 250 2, duration = MinutesOnly (Num 10), durationMinutes = Num 10,
      instructions = [], profile = ''cycling-regular'', name = [0xC790, 0xC804, 0xAC70],
      icon = ''fa-bicycle'', routeType = ''fastest'', isFallback = False\<rparr>"

definition sample_route_car :: route where
  "sample_route_car =
     \<lparr>coordinates = [[Num 126.978, Num 37.5665], [Num 127, Num 37.58]],
      distance = Fixed 310 2, duration = MinutesOnly (Num 10), durationMinutes = Num 10,
      instructions = [], profile = ''driving-car'', name = [0xC790, 0xB3D9, 0xCC28],
      icon = ''fa-car'', routeType = ''fastest'', isFallback = False\<rparr>"

definition sample_routes :: "route list" where
  "sample_routes = [sample_route_walk, sample_route_cycle, sample_route_car]"

text \<open>A world in which the geocoding service was called 100 ms ago, and a service that
  cannot be reached.\<close>

definition sample_world :: world where
  "sample_world = \<lparr>clock = 5000, lastNominatimRequest = 4900, requests = 0, waited = 0\<rparr>"

definition unreachable_service :: "jsstring \<Rightarrow> nominatim_outcome" where
  "unreachable_service query = NRejected"

text \<open>A provider that answers the three profiles with an error status, a timeout and a
  transport failure, and one that always times out. Two points 0.0001 degrees of latitude
  (about 11 m) apart.\<close>

definition failing_provider :: "string \<Rightarrow> fetch_outcome" where
  "failing_provider profile' =
     (if profile' = ''driving-car'' then Response False 500 NotJson
      else if profile' = ''foot-walking'' then Aborted
      else Rejected True)"

definition timeout_provider :: "string \<Rightarrow> fetch_outcome" where
  "timeout_provider profile' = Aborted"

definition city_hall :: coord where
  "city_hall = [Num 126.978, Num 37.5665]"

definition city_hall_north :: coord where
  "city_hall_north = [Num 126.978, Num 37.5666]"

text \<open>A third point, 0.002 degrees of latitude (about 220 m) north of the first.\<close>

definition city_hall_block_north :: coord where
  "city_hall_block_north = [Num 126.978, Num 37.5685]"



text \<open>Two routes of 50 km: by car in 30 minutes and by bicycle in 60 minutes. All the numbers
  their scores are computed from (50, 7500, 0.75, 0.5, 1.25, 1) are doubles.\<close>

definition long_route_car :: route where
  "long_route_car =
     \<lparr>coordinates = [[Num 127, Num 36], [Num 127, Num 37]],
      distance = Fixed 5000 2, duration = MinutesOnly (Num 30), durationMinutes = Num 30,
      instructions = [], profile = ''driving-car'', name = [0xC790, 0xB3D9, 0xCC28],
      icon = ''fa-car'', routeType = ''fastest'', isFallback = False\<rparr>"

definition long_route_cycle :: route where
  "long_route_cycle =
     \<lparr>coordinates = [[Num 127, Num 36], [Num 127, Num 37]],
      distance = Fixed 5000 2, duration = HoursMinutes (Num 1) (Num 0), durationMinutes = Num 60,
      instructions = [], profile = ''cycling-regular'', name = [0xC790, 0xC804, 0xAC70],
      icon = ''fa-bicycle'', routeType = ''balanced'', isFallback = False\<rparr>"

definition long_routes :: "route list" where
  "long_routes = [long_route_car, long_route_cycle]"

text \<open>A provider that answers every profile with a route of 3 m and 20 s.\<close>

definition short_hop_provider :: "string \<Rightarrow> fetch_outcome" where
  "short_hop_provider profile' =
     Response True 200
       (Json (Some [\<lparr>geometry_coordinates = [city_hall, city_hall_north],
                      summary = \<lparr>summary_distance = Num 3, summary_duration = Num 20\<rparr>,
                      segments = [[]]\<rparr>]))"

section \<open>Properties of the platforms\<close>

lemma exact_simps [simp]:
  "fl exact_platform x = Num x"
  "m_sin exact_platform x = Num (sin x)"
  "m_cos exact_platform x = Num (cos x)"
  "m_atan2 exact_platform y x = Num (atan2 y x)"
  by (simp_all add: exact_platform_def)

lemma js_le_Num: "js_le (Num a) (Num b) \<longleftrightarrow> a \<le> b"
  by (auto simp: js_le_def)

lemma js_gt_Num: "js_gt (Num a) (Num b) \<longleftrightarrow> b < a"
  by (simp add: js_gt_def)

lemma js_gt_iff: "js_gt x (Num 0) \<longleftrightarrow> \<not> isNaN x \<and> \<not> js_le x (Num 0)"
  by (cases x) (auto simp: js_gt_def js_le_def)

lemma js_ge_Num_cases: "js_le (Num a) x \<Longrightarrow> (\<exists>y. x = Num y \<and> a \<le> y) \<or> x = PosInf"
  by (cases x) (auto simp: js_le_def)

lemma js_le_Num_cases: "js_le x (Num b) \<Longrightarrow> (\<exists>y. x = Num y \<and> y \<le> b) \<or> x = NegInf"
  by (cases x) (auto simp: js_le_def)

text \<open>Exact arithmetic has the three properties of rounding to the nearest double, and it
  is symmetric about zero.\<close>

lemma ieee_double_exact: "ieee_double exact_platform"
  unfolding ieee_double_def
proof (intro conjI allI impI)
  fix x y :: real
  assume "x \<le> y"
  then show "js_le (fl exact_platform x) (fl exact_platform y)"
    by (simp add: js_le_Num)
next
  fix k :: int
  show "fl exact_platform (of_int k) = Num (of_int k)"
    by simp
next
  fix x :: real
  show "\<exists>y. fl exact_platform x = Num y \<and> \<bar>y - x\<bar> \<le> \<bar>x\<bar> / 2 ^ 53"
    by (intro exI [of _ x]) simp
qed

lemma sign_symmetric_exact: "sign_symmetric exact_platform"
  by (simp add: sign_symmetric_def)

text \<open>The three properties, one by one; the third for numbers between a millionth and a
  million, with a relative error of a millionth.\<close>

lemma fl_mono: "ieee_double js \<Longrightarrow> x \<le> y \<Longrightarrow> js_le (fl js x) (fl js y)"
  by (simp add: ieee_double_def)

lemma fl_int: "ieee_double js \<Longrightarrow> \<bar>k\<bar> \<le> 2 ^ 53 \<Longrightarrow> fl js (of_int k) = Num (of_int k)"
  by (simp add: ieee_double_def)

lemma fl_zero: "ieee_double js \<Longrightarrow> fl js 0 = Num 0"
  using fl_int [of js 0] by simp

lemma fl_near:
  assumes "ieee_double js" and "1 / 1000000 \<le> \<bar>x\<bar>" and "\<bar>x\<bar> \<le> 1000000"
  shows "\<exists>y. fl js x = Num y \<and> \<bar>y - x\<bar> \<le> \<bar>x\<bar> / 1000000"
proof -
  have p20: "(1000000::real) \<le> 2 ^ 20"
    by simp
  have "(2::real) ^ 20 \<le> 2 ^ 1022" "(2::real) ^ 20 \<le> 2 ^ 1023" "(2::real) ^ 20 \<le> 2 ^ 53"
    by (rule power_increasing; simp)+
  with p20 have big: "(1000000::real) \<le> 2 ^ 1022" "(1000000::real) \<le> 2 ^ 1023"
    "(1000000::real) \<le> 2 ^ 53"
    by linarith+
  have "1 / (2::real) ^ 1022 \<le> 1 / 1000000"
    using big(1) by (intro divide_left_mono) simp_all
  with assms(2) have lo: "1 / 2 ^ 1022 \<le> \<bar>x\<bar>"
    by linarith
  from assms(3) big(2) have hi: "\<bar>x\<bar> \<le> 2 ^ 1023"
    by linarith
  from assms(1) lo hi obtain y where y: "fl js x = Num y" "\<bar>y - x\<bar> \<le> \<bar>x\<bar> / 2 ^ 53"
    unfolding ieee_double_def by blast
  have "\<bar>x\<bar> / 2 ^ 53 \<le> \<bar>x\<bar> / 1000000"
    using big(3) by (intro divide_left_mono) simp_all
  with y show ?thesis
    by (intro exI [of _ y]) linarith
qed

text \<open>The rounding of a number that is not negative is not negative; the rounding of a
  number between 0 and a bound \<open>b\<close> is finite and at most \<open>b\<close> and a millionth of it; the
  rounding of a number from a positive bound on is positive.\<close>

lemma fl_nonneg:
  assumes "ieee_double js" and "0 \<le> x"
  shows "(\<exists>y. fl js x = Num y \<and> 0 \<le> y) \<or> fl js x = PosInf"
  using fl_mono [OF assms] js_ge_Num_cases [of 0 "fl js x"] by (simp add: fl_zero [OF assms(1)])

lemma fl_below:
  assumes "ieee_double js" and "0 \<le> x" and "x \<le> b" and "1 / 1000000 \<le> b" and "b \<le> 1000000"
  shows "\<exists>y. fl js x = Num y \<and> 0 \<le> y \<and> y \<le> b + b / 1000000"
proof -
  from fl_near [OF assms(1), of b] assms(4,5)
  obtain z where z: "fl js b = Num z" "\<bar>z - b\<bar> \<le> \<bar>b\<bar> / 1000000"
    by auto
  from fl_mono [OF assms(1,3)] have "js_le (fl js x) (Num z)"
    by (simp add: z(1))
  with fl_nonneg [OF assms(1,2)] obtain y where y: "fl js x = Num y" "0 \<le> y" "y \<le> z"
    by (auto simp: js_le_Num js_le_def)
  have "0 < b"
    using assms(4) by linarith
  with z(2) have "z \<le> b + b / 1000000"
    by linarith
  with y show ?thesis
    by (intro exI [of _ y]) simp
qed


lemma fl_within:
  assumes "ieee_double js" and "a \<le> x" and "x \<le> b" and "1 / 1000000 \<le> a" and "b \<le> 1000000"
  shows "\<exists>y. fl js x = Num y \<and> a - a / 1000000 \<le> y \<and> y \<le> b + b / 1000000"
proof -
  have a: "0 < a" "a \<le> 1000000" and b: "0 < b" "1 / 1000000 \<le> b"
    using assms(2-5) by linarith+
  from fl_near [OF assms(1), of a] assms(4) a(2)
  obtain za where za: "fl js a = Num za" "\<bar>za - a\<bar> \<le> \<bar>a\<bar> / 1000000"
    by auto
  from fl_near [OF assms(1), of b] assms(5) b(2)
  obtain zb where zb: "fl js b = Num zb" "\<bar>zb - b\<bar> \<le> \<bar>b\<bar> / 1000000"
    by auto
  have "js_le (Num za) (fl js x)" "js_le (fl js x) (Num zb)"
    using fl_mono [OF assms(1,2)] fl_mono [OF assms(1,3)] by (simp_all add: za(1) zb(1))
  then obtain y where y: "fl js x = Num y" "za \<le> y" "y \<le> zb"
    using js_ge_Num_cases [of za "fl js x"] js_le_Num_cases [of "fl js x" zb] by auto
  have "a - a / 1000000 \<le> za" "zb \<le> b + b / 1000000"
    using za(2) zb(2) a(1) b(1) by linarith+
  with y show ?thesis
    by (intro exI [of _ y]) simp
qed

text \<open>Between two integers of at most 53 bits the rounding stays between them.\<close>

lemma fl_between:
  assumes "ieee_double js" and "of_int a \<le> x" and "x \<le> of_int b"
    and "\<bar>a\<bar> \<le> 2 ^ 53" and "\<bar>b\<bar> \<le> 2 ^ 53"
  shows "\<exists>y. fl js x = Num y \<and> of_int a \<le> y \<and> y \<le> of_int b"
proof -
  have "js_le (Num (of_int a)) (fl js x)" "js_le (fl js x) (Num (of_int b))"
    using fl_mono [OF assms(1,2)] fl_mono [OF assms(1,3)]
    by (simp_all add: fl_int [OF assms(1,4)] fl_int [OF assms(1,5)])
  then show ?thesis
    using js_ge_Num_cases [of "of_int a" "fl js x"] js_le_Num_cases [of "fl js x" "of_int b"]
    by auto
qed

section \<open>Properties of the geodesy utility\<close>

lemma rad_diff: "rad (x - y) = rad x - rad y"
  by (simp add: rad_def left_diff_distrib)

lemma rad_minus: "rad (- x) = - rad x"
  by (simp add: rad_def)

lemma sin_half_square: "sin (x / 2) * sin (x / 2) = (1 - cos x) / 2" for x :: real
  using cos_double_sin [of "x / 2"] by (simp add: power2_eq_square)

lemma hav_a_alt:
  "hav_a lat1 lng1 lat2 lng2 =
     (1 - (sin (rad lat1) * sin (rad lat2)
           + cos (rad lat1) * cos (rad lat2) * cos (rad (lng2 - lng1)))) / 2"
proof -
  have "hav_a lat1 lng1 lat2 lng2
        = (1 - cos (rad lat2 - rad lat1)) / 2
          + cos (rad lat1) * (cos (rad lat2) * ((1 - cos (rad (lng2 - lng1))) / 2))"
    by (simp only: hav_a_def mult.assoc sin_half_square rad_diff)
  also have "\<dots> = (1 - (sin (rad lat1) * sin (rad lat2)
           + cos (rad lat1) * cos (rad lat2) * cos (rad (lng2 - lng1)))) / 2"
    unfolding cos_diff by (simp add: field_simps)
  finally show ?thesis .
qed

lemma sphere_dot_bounds:
  fixes p q l :: real
  shows "\<bar>sin p * sin q + cos p * cos q * cos l\<bar> \<le> 1"
proof -
  define s where "s = sin p * sin q"
  define c where "c = cos p * cos q"
  define t where "t = cos l"
  have t: "- 1 \<le> t" "t \<le> 1" by (simp_all add: t_def)
  have "s + c = cos (p - q)" by (simp add: s_def c_def cos_diff)
  then have a: "s + c \<le> 1" "- 1 \<le> s + c" by simp_all
  have "s - c = - cos (p + q)" by (simp add: s_def c_def cos_add)
  then have b: "s - c \<le> 1" "- 1 \<le> s - c" by simp_all
  have "\<bar>c * t\<bar> \<le> \<bar>c\<bar> * 1"
    unfolding abs_mult using t by (intro mult_left_mono) (simp_all add: abs_le_iff)
  then have "c * t \<le> \<bar>c\<bar>" "- \<bar>c\<bar> \<le> c * t"
    by (simp_all add: abs_le_iff)
  then have "s + c * t \<le> 1" "- 1 \<le> s + c * t"
    using a b by linarith+
  then show ?thesis
    by (simp add: s_def c_def t_def abs_le_iff)
qed

lemma hav_a_ge0: "0 \<le> hav_a lat1 lng1 lat2 lng2"
  using sphere_dot_bounds [of "rad lat1" "rad lat2" "rad (lng2 - lng1)"]
  by (simp add: hav_a_alt abs_le_iff)

lemma hav_a_le1: "hav_a lat1 lng1 lat2 lng2 \<le> 1"
  using sphere_dot_bounds [of "rad lat1" "rad lat2" "rad (lng2 - lng1)"]
  by (simp add: hav_a_alt abs_le_iff)

lemma toRad_Num: "toRad exact_platform (Num x) = Num (rad x)"
  by (simp add: toRad_def rad_def Math_PI_def)

lemma calculateDistance_Num:
  "calculateDistance exact_platform (Num lat1) (Num lng1) (Num lat2) (Num lng2) = Num (hav_km lat1 lng1 lat2 lng2)"
proof -
  have a: "\<not> hav_a lat1 lng1 lat2 lng2 < 0" "\<not> 1 - hav_a lat1 lng1 lat2 lng2 < 0"
    using hav_a_ge0 [of lat1 lng1 lat2 lng2] hav_a_le1 [of lat1 lng1 lat2 lng2] by simp_all
  have t: "js_add exact_platform
          (js_mul exact_platform (Math_sin exact_platform (js_div exact_platform (toRad exact_platform (js_sub exact_platform (Num lat2) (Num lat1))) (Num 2)))
                  (Math_sin exact_platform (js_div exact_platform (toRad exact_platform (js_sub exact_platform (Num lat2) (Num lat1))) (Num 2))))
          (js_mul exact_platform
            (js_mul exact_platform
              (js_mul exact_platform (Math_cos exact_platform (toRad exact_platform (Num lat1))) (Math_cos exact_platform (toRad exact_platform (Num lat2))))
              (Math_sin exact_platform (js_div exact_platform (toRad exact_platform (js_sub exact_platform (Num lng2) (Num lng1))) (Num 2))))
            (Math_sin exact_platform (js_div exact_platform (toRad exact_platform (js_sub exact_platform (Num lng2) (Num lng1))) (Num 2))))
        = Num (hav_a lat1 lng1 lat2 lng2)"
    by (simp add: toRad_Num js_sub_def hav_a_def)
  show ?thesis
    unfolding calculateDistance_def Let_def t using a by (simp add: js_sub_def hav_km_def)
qed

lemma hav_a_sym: "hav_a lat2 lng2 lat1 lng1 = hav_a lat1 lng1 lat2 lng2"
proof -
  have "cos (rad (lng1 - lng2)) = cos (rad (lng2 - lng1))"
    using cos_minus [of "rad (lng2 - lng1)"] by (simp add: rad_minus [symmetric])
  then show ?thesis
    by (simp add: hav_a_alt mult.commute)
qed

lemma hav_km_sym: "hav_km lat2 lng2 lat1 lng1 = hav_km lat1 lng1 lat2 lng2"
  by (simp add: hav_km_def hav_a_sym)

lemma atan2_sin_cos: "0 \<le> x \<Longrightarrow> x \<le> pi / 2 \<Longrightarrow> atan2 (sin x) (cos x) = x"
proof (cases "x = pi / 2")
  case True
  have "sin x = 1" "cos x = 0" unfolding True by simp_all
  then show ?thesis by (simp add: atan2_def True)
next
  case False
  assume "0 \<le> x" "x \<le> pi / 2"
  with False have x: "- (pi / 2) < x" "x < pi / 2" by simp_all
  then have "0 < cos x" by (rule cos_gt_zero_pi)
  moreover have "arctan (sin x / cos x) = x"
    using arctan_tan [OF x] by (simp add: tan_def)
  ultimately show ?thesis by (simp add: atan2_def)
qed

lemma rad_zero [simp]: "rad 0 = 0"
  by (simp add: rad_def)

lemma hav_km_meridian:
  assumes "0 \<le> d" "d \<le> 180"
  shows "hav_km lat lng (lat + d) lng = 6371 * rad d"
proof -
  have r: "0 \<le> rad d / 2" "rad d / 2 \<le> pi / 2"
    using assms by (simp_all add: rad_def)
  have s: "0 \<le> sin (rad d / 2)" 
    using r by (intro sin_ge_zero) simp_all
  have c: "0 \<le> cos (rad d / 2)"
    using r by (intro cos_ge_zero) simp_all
  have a: "hav_a lat lng (lat + d) lng = (sin (rad d / 2))\<^sup>2"
    by (simp add: hav_a_def power2_eq_square)
  have "1 - (sin (rad d / 2))\<^sup>2 = (cos (rad d / 2))\<^sup>2"
    by (simp add: cos_squared_eq)
  then have "hav_km lat lng (lat + d) lng = 6371 * (2 * atan2 (sin (rad d / 2)) (cos (rad d / 2)))"
    using s c by (simp add: hav_km_def a)
  then show ?thesis
    using atan2_sin_cos [OF r] by simp
qed

section \<open>The fallback route\<close>

text \<open>On every platform, a route that \<open>createFallbackRoute\<close> builds is the estimate of the
  specification, and it is built exactly when the end points have two numbers each, the
  speed is positive, and the distance and the minutes that are computed are positive.\<close>

lemma createFallbackRoute_spec:
  assumes "createFallbackRoute js s e n i p speed = Inr r"
  shows "spec_fallback_route js s e speed r \<and> profile r = p \<and> isFallback r"
  using assms
  by (auto simp: createFallbackRoute_def spec_fallback_route_def Let_def
      split: if_splits simp del: toFixed.simps)

lemma js_le_zero:
  "js_le PosInf (Num 0) = False" "js_le NegInf (Num 0) = True" "js_le NaN (Num 0) = False"
  by (simp_all add: js_le_def)

lemma createFallbackRoute_built:
  "(\<exists>r. createFallbackRoute js s e n i p speed = Inr r) \<longleftrightarrow>
     length s = 2 \<and> length e = 2 \<and> js_gt speed (Num 0)
     \<and> \<not> isNaN (js_nth s 0) \<and> \<not> isNaN (js_nth s 1)
     \<and> \<not> isNaN (js_nth e 0) \<and> \<not> isNaN (js_nth e 1)
     \<and> js_gt (calculateDistance js (js_nth s 1) (js_nth s 0) (js_nth e 1) (js_nth e 0)) (Num 0)
     \<and> js_gt (Math_round (js_mul js (js_div js
                 (js_mul js (calculateDistance js (js_nth s 1) (js_nth s 0) (js_nth e 1) (js_nth e 0))
                    (fl js 1.3)) speed) (Num 60))) (Num 0)"
proof -
  define d where "d = calculateDistance js (js_nth s 1) (js_nth s 0) (js_nth e 1) (js_nth e 0)"
  define m where "m = Math_round (js_mul js (js_div js (js_mul js d (fl js 1.3)) speed) (Num 60))"
  have speed: "js_falsy speed \<or> js_le speed (Num 0) \<longleftrightarrow> \<not> js_gt speed (Num 0)"
    by (cases speed) (auto simp: js_gt_Num js_le_Num js_le_zero js_gt_def)
  have "(\<exists>r. createFallbackRoute js s e n i p speed = Inr r) \<longleftrightarrow>
     length s = 2 \<and> length e = 2 \<and> js_gt speed (Num 0)
     \<and> \<not> isNaN (js_nth s 0) \<and> \<not> isNaN (js_nth s 1)
     \<and> \<not> isNaN (js_nth e 0) \<and> \<not> isNaN (js_nth e 1)
     \<and> js_gt d (Num 0) \<and> js_gt m (Num 0)"
    unfolding createFallbackRoute_def Let_def d_def [symmetric] m_def [symmetric]
    by (auto simp: speed js_gt_iff [of d] js_gt_iff [of m] simp del: toFixed.simps)
  then show ?thesis
    by (simp only: d_def m_def)
qed

section \<open>Properties of the route acquisition\<close>

lemma valid_routes_empty:
  "map the (filter (\<lambda>r. r \<noteq> None) xs) = [] \<longleftrightarrow> (\<forall>x \<in> set xs. x = None)"
  by (induction xs) auto

lemma valid_routes_member:
  "Some v \<in> set xs \<Longrightarrow> v \<in> set (map the (filter (\<lambda>r. r \<noteq> None) xs))"
  by (induction xs) auto

lemma routePromise_None:
  "routePromise js provider s e p = None \<longleftrightarrow>
     (\<exists>err. getRoute js (provider (p_profile p)) (p_profile p) = Inl err)
     \<and> (\<exists>ferr. createFallbackRoute js s e (p_name p) (p_icon p) (p_profile p) (p_speed p) = Inl ferr)"
  by (auto simp: routePromise_def split: sum.splits)

lemma routePromise_fallback:
  "getRoute js (provider (p_profile p)) (p_profile p) = Inl err \<Longrightarrow>
   createFallbackRoute js s e (p_name p) (p_icon p) (p_profile p) (p_speed p) = Inr fr \<Longrightarrow>
   routePromise js provider s e p = Some fr"
  by (simp add: routePromise_def)








text \<open>
  On a platform that rounds to the nearest double, a distance \<open>h\<close> of at most \<open>s / 160\<close>
  kilometres at the speed \<open>s\<close> gives minutes that round to 0, and a distance of at least
  \<open>s / 150\<close> kilometres gives minutes that round to 1 or more: the minutes are
  \<open>h * 1.3 / s * 60\<close> up to three roundings, at most 0.4876 in the first case and at least
  0.5199 in the second.
\<close>

lemma fl_13:
  assumes "ieee_double js"
  shows "\<exists>c. fl js 1.3 = Num c \<and> 12999 / 10000 \<le> c \<and> c \<le> 13001 / 10000"
proof -
  from fl_near [OF assms, of "1.3"] obtain c where c: "fl js 1.3 = Num c" "\<bar>c - 1.3\<bar> \<le> \<bar>1.3\<bar> / 1000000"
    by auto
  have "\<bar>1.3::real\<bar> / 1000000 \<le> 1 / 10000" by simp
  with c(2) have "12999 / 10000 \<le> c" "c \<le> 13001 / 10000"
    by linarith+
  with c(1) show ?thesis by blast
qed

lemma minutes_zero:
  assumes js: "ieee_double js" and h: "0 < h" "160 * h \<le> s" and s: "5 \<le> s" "s \<le> 60"
  shows "Math_round (js_mul js (js_div js (js_mul js (Num h) (fl js 1.3)) (Num s)) (Num 60)) = Num 0"
proof -
  have s0: "0 < s" using s by simp
  obtain c where c: "fl js 1.3 = Num c" "12999 / 10000 \<le> c" "c \<le> 13001 / 10000"
    using fl_13 [OF js] by blast
  define b where "b = s * (13001 / 1600000)"
  have b: "1 / 1000000 \<le> b" "b \<le> 1000000"
    using s by (simp_all add: b_def)
  have "h * c \<le> (s / 160) * (13001 / 10000)"
    using h c(2,3) by (intro mult_mono) simp_all
  then have hc: "0 \<le> h * c" "h * c \<le> b"
    using h(1) c(2) by (simp_all add: b_def)
  obtain x where x: "fl js (h * c) = Num x" "0 \<le> x" "x \<le> b + b / 1000000"
    using fl_below [OF js hc b] by blast
  have "x \<le> s * (813 / 100000)"
    using x(3) s0 by (simp add: b_def)
  then have "x / s \<le> 813 / 100000"
    using s0 by (simp add: field_simps)
  moreover have "0 \<le> x / s"
    using x(2) s0 by simp
  ultimately obtain y1 where y1: "fl js (x / s) = Num y1" "0 \<le> y1"
    "y1 \<le> 813 / 100000 + 813 / 100000 / 1000000"
    using fl_below [OF js, of "x / s" "813 / 100000"] by auto
  have "0 \<le> y1 * 60" "y1 * 60 \<le> 49 / 100"
    using y1(2,3) by simp_all
  then obtain y2 where y2: "fl js (y1 * 60) = Num y2" "0 \<le> y2" "y2 \<le> 49 / 100 + 49 / 100 / 1000000"
    using fl_below [OF js, of "y1 * 60" "49 / 100"] by auto
  have "\<lfloor>y2 + 1 / 2\<rfloor> = 0"
    using y2(2,3) by linarith
  then show ?thesis
    using s0 by (simp add: c(1) x(1) y1(1) y2(1))
qed

lemma minutes_positive:
  assumes js: "ieee_double js" and h: "s \<le> 150 * h" "h \<le> 1000" and s: "5 \<le> s" "s \<le> 60"
  shows "js_gt (Math_round (js_mul js (js_div js (js_mul js (Num h) (fl js 1.3)) (Num s)) (Num 60)))
           (Num 0)"
proof -
  have s0: "0 < s" using s by simp
  have h0: "0 < h" using h(1) s0 by linarith
  obtain c where c: "fl js 1.3 = Num c" "12999 / 10000 \<le> c" "c \<le> 13001 / 10000"
    using fl_13 [OF js] by blast
  define a where "a = s * (12999 / 1500000)"
  have a: "1 / 1000000 \<le> a"
    using s by (simp add: a_def)
  have "(s / 150) * (12999 / 10000) \<le> h * c"
    using h(1) c(2) s0 by (intro mult_mono) simp_all
  then have lo: "a \<le> h * c"
    by (simp add: a_def)
  have "h * c \<le> 1000 * (13001 / 10000)"
    using h(2) h0 c(2,3) by (intro mult_mono) simp_all
  then have hi: "h * c \<le> 2000"
    by simp
  obtain x where x: "fl js (h * c) = Num x" "a - a / 1000000 \<le> x" "x \<le> 2000 + 2000 / 1000000"
    using fl_within [OF js lo hi a] by auto
  have "s * (866 / 100000) \<le> x"
    using x(2) s0 by (simp add: a_def)
  then have "866 / 100000 \<le> x / s"
    using s0 by (simp add: field_simps)
  moreover have "x / s \<le> 2001 / 5"
  proof -
    have "x \<le> 2001" using x(3) by simp
    also have "\<dots> \<le> s * (2001 / 5)" using s(1) by simp
    finally show ?thesis
      using s0 by (simp add: field_simps)
  qed
  ultimately obtain y1 where y1: "fl js (x / s) = Num y1"
    "866 / 100000 - 866 / 100000 / 1000000 \<le> y1" "y1 \<le> 2001 / 5 + 2001 / 5 / 1000000"
    using fl_within [OF js, of "866 / 100000" "x / s" "2001 / 5"] by auto
  have "519 / 1000 \<le> y1 * 60" "y1 * 60 \<le> 30000"
    using y1(2,3) by simp_all
  then obtain y2 where y2: "fl js (y1 * 60) = Num y2" "519 / 1000 - 519 / 1000 / 1000000 \<le> y2"
    using fl_within [OF js, of "519 / 1000" "y1 * 60" 30000] by auto
  have "0 < \<lfloor>y2 + 1 / 2\<rfloor>"
    using y2(2) by linarith
  then show ?thesis
    using s0 by (simp add: c(1) x(1) y1(1) y2(1) js_gt_Num)
qed

text \<open>So the fallback route of a profile of 5 to 60 km/h cannot be built when the distance
  computed is a number of at most \<open>s / 160\<close>, and it is built when the distance computed is
  a number of at least \<open>s / 150\<close> (and at most 1000 km).\<close>

lemma fallback_fails_near:
  assumes "ieee_double js" and "5 \<le> speed" and "speed \<le> 60"
    and "calculateDistance js (js_nth s 1) (js_nth s 0) (js_nth e 1) (js_nth e 0) = Num h"
    and "160 * h \<le> speed"
  shows "\<exists>ferr. createFallbackRoute js s e n i p (Num speed) = Inl ferr"
proof -
  have "\<not> (\<exists>r. createFallbackRoute js s e n i p (Num speed) = Inr r)"
  proof (cases "0 < h")
    case True
    from minutes_zero [OF assms(1) True assms(5,2,3)] show ?thesis
      unfolding createFallbackRoute_built assms(4) by (simp add: js_gt_Num)
  next
    case False
    then show ?thesis
      unfolding createFallbackRoute_built assms(4) by (simp add: js_gt_Num)
  qed
  then show ?thesis
    by (cases "createFallbackRoute js s e n i p (Num speed)") auto
qed

lemma fallback_built_far:
  assumes "ieee_double js" and "5 \<le> speed" and "speed \<le> 60"
    and "calculateDistance js (Num lat1) (Num lng1) (Num lat2) (Num lng2) = Num h"
    and "speed \<le> 150 * h" and "h \<le> 1000"
  shows "\<exists>fr. createFallbackRoute js [Num lng1, Num lat1] [Num lng2, Num lat2] n i p (Num speed) = Inr fr
              \<and> profile fr = p \<and> isFallback fr"
proof -
  have "0 < h" "0 < speed"
    using assms(2,5) by linarith+
  with minutes_positive [OF assms(1,5,6,2,3)]
  have "\<exists>fr. createFallbackRoute js [Num lng1, Num lat1] [Num lng2, Num lat2] n i p (Num speed) = Inr fr"
    unfolding createFallbackRoute_built by (simp add: js_nth_def assms(4) js_gt_Num)
  then show ?thesis
    using createFallbackRoute_spec by blast
qed


lemma block_points_two_routes:
  assumes "ieee_double js"
    and "calculateDistance js (Num lat1) (Num lng1) (Num lat2) (Num lng2) = Num h"
    and "1 / 10 \<le> h" and "h \<le> 3 / 10"
    and "\<And>pr. \<exists>err. getRoute js (provider pr) pr = Inl err"
  shows "map_sum id (map profile)
           (getMultipleRoutes js provider (Some [Num lng1, Num lat1]) (Some [Num lng2, Num lat2]))
         = Inr [''foot-walking'', ''cycling-regular'']"
proof -
  let ?s = "[Num lng1, Num lat1]" and ?e = "[Num lng2, Num lat2]"
  have d: "calculateDistance js (js_nth ?s 1) (js_nth ?s 0) (js_nth ?e 1) (js_nth ?e 0) = Num h"
    by (simp add: js_nth_def assms(2))
  have "160 * h \<le> 60"
    using assms(4) by simp
  from fallback_fails_near [OF assms(1) _ _ d this]
  have "\<exists>ferr. createFallbackRoute js ?s ?e [0xC790, 0xB3D9, 0xCC28] ''fa-car'' ''driving-car'' (Num 60)
                 = Inl ferr"
    by simp
  then have car: "routePromise js provider ?s ?e
               \<lparr>p_profile = ''driving-car'', p_name = [0xC790, 0xB3D9, 0xCC28],
                p_icon = ''fa-car'', p_speed = Num 60\<rparr> = None"
    using assms(5) by (simp add: routePromise_None)
  have far: "(5::real) \<le> 150 * h" "(15::real) \<le> 150 * h" "h \<le> 1000"
    using assms(3,4) by simp_all
  obtain r2 where r2: "routePromise js provider ?s ?e
               \<lparr>p_profile = ''foot-walking'', p_name = [0xB3C4, 0xBCF4],
                p_icon = ''fa-person-walking'', p_speed = Num 5\<rparr> = Some r2"
    and p2: "profile r2 = ''foot-walking''"
    using fallback_built_far [OF assms(1) _ _ assms(2) far(1,3),
        of "[0xB3C4, 0xBCF4]" "''fa-person-walking''" "''foot-walking''"] assms(5) [of "''foot-walking''"]
    by (auto simp: routePromise_def)
  obtain r3 where r3: "routePromise js provider ?s ?e
               \<lparr>p_profile = ''cycling-regular'', p_name = [0xC790, 0xC804, 0xAC70],
                p_icon = ''fa-bicycle'', p_speed = Num 15\<rparr> = Some r3"
    and p3: "profile r3 = ''cycling-regular''"
    using fallback_built_far [OF assms(1) _ _ assms(2) far(2,3),
        of "[0xC790, 0xC804, 0xAC70]" "''fa-bicycle''" "''cycling-regular''"] assms(5) [of "''cycling-regular''"]
    by (auto simp: routePromise_def)
  have "getMultipleRoutes js provider (Some ?s) (Some ?e) = Inr [r2, r3]"
    by (simp add: getMultipleRoutes_def Let_def profiles_def car r2 r3)
  then show ?thesis
    by (simp add: p2 p3)
qed



text \<open>
  The sample points lie on one meridian, where the great-circle distance is the radius
  times the difference of the latitudes in radians. On exact arithmetic
  \<open>calculateDistance\<close> gives this distance, and from \<open>2 \<le> pi < 4\<close> it is at most 30 m for
  the two points 0.0001 degrees apart (it is about 11 m), between 100 m and 300 m for the
  two points 0.002 degrees apart (about 222 m), and between 0.4 km and 1000 km for two
  points one degree apart (about 111 km).
\<close>

lemma near_distance:
  "calculateDistance exact_platform (Num 37.5665) (Num 126.978) (Num 37.5666) (Num 126.978)
   = Num (6371 * rad 0.0001)"
  "6371 * rad 0.0001 \<le> 3 / 100"
proof -
  have "hav_km 37.5665 126.978 37.5666 126.978 = 6371 * rad 0.0001"
    using hav_km_meridian [of "0.0001" "37.5665" "126.978"] by simp
  then show "calculateDistance exact_platform (Num 37.5665) (Num 126.978) (Num 37.5666) (Num 126.978)
             = Num (6371 * rad 0.0001)"
    by (simp only: calculateDistance_Num)
  show "6371 * rad 0.0001 \<le> 3 / 100"
    using pi_less_4 by (simp add: rad_def)
qed

lemma block_distance:
  "calculateDistance exact_platform (Num 37.5665) (Num 126.978) (Num 37.5685) (Num 126.978)
   = Num (6371 * rad 0.002)"
  "1 / 10 \<le> 6371 * rad 0.002"
  "6371 * rad 0.002 \<le> 3 / 10"
proof -
  have "hav_km 37.5665 126.978 37.5685 126.978 = 6371 * rad 0.002"
    using hav_km_meridian [of "0.002" "37.5665" "126.978"] by simp
  then show "calculateDistance exact_platform (Num 37.5665) (Num 126.978) (Num 37.5685) (Num 126.978)
             = Num (6371 * rad 0.002)"
    by (simp only: calculateDistance_Num)
  show "1 / 10 \<le> 6371 * rad 0.002"
    using pi_ge_two by (simp add: rad_def)
  show "6371 * rad 0.002 \<le> 3 / 10"
    using pi_less_4 by (simp add: rad_def)
qed

lemma one_degree_distance:
  "calculateDistance exact_platform (Num 36) (Num 127) (Num 37) (Num 127) = Num (6371 * rad 1)"
  "60 \<le> 150 * (6371 * rad 1)"
  "6371 * rad 1 \<le> 1000"
proof -
  have "hav_km 36 127 37 127 = 6371 * rad 1"
    using hav_km_meridian [of 1 36 127] by simp
  then show "calculateDistance exact_platform (Num 36) (Num 127) (Num 37) (Num 127) = Num (6371 * rad 1)"
    by (simp only: calculateDistance_Num)
  show "60 \<le> 150 * (6371 * rad 1)"
    using pi_ge_two by (simp add: rad_def)
  show "6371 * rad 1 \<le> 1000"
    using pi_less_4 by (simp add: rad_def)
qed

text \<open>The two sample providers that fail for every profile.\<close>

lemma timeout_provider_fails: "\<exists>err. getRoute js (timeout_provider pr) pr = Inl err"
  by (simp add: timeout_provider_def getRoute_def)

lemma failing_provider_fails: "\<exists>err. getRoute js (failing_provider pr) pr = Inl err"
  by (simp add: failing_provider_def getRoute_def)

section \<open>Symmetry of the great-circle distance\<close>

text \<open>On a platform whose rounding and sine are symmetric about zero, exchanging the two
  points negates the two differences, and with them the two sines of the half angles, each
  of which enters the haversine term twice; the product of the two cosines is the same by
  the commutativity of the multiplication.\<close>

lemma js_neg_neg: "js_neg (js_neg x) = x"
  by (cases x) simp_all

lemma js_mul_commute: "js_mul js a b = js_mul js b a"
  by (cases a; cases b) (simp_all add: mult.commute)

lemma js_mul_neg:
  assumes "sign_symmetric js"
  shows "js_mul js (js_neg a) b = js_neg (js_mul js a b)"
proof -
  have fl: "fl js (- x) = js_neg (fl js x)" for x
    using assms by (simp add: sign_symmetric_def)
  show ?thesis
    by (cases a; cases b) (simp_all add: fl inf_of_sign_def)
qed

lemma js_mul_neg_neg:
  assumes "sign_symmetric js"
  shows "js_mul js (js_mul js p (js_neg s)) (js_neg s) = js_mul js (js_mul js p s) s"
proof -
  have "js_mul js p (js_neg s) = js_neg (js_mul js p s)"
    using js_mul_neg [OF assms, of s p] by (simp only: js_mul_commute [of js p])
  moreover have "js_mul js (js_neg (js_mul js p s)) (js_neg s) = js_mul js (js_mul js p s) s"
    using js_mul_neg [OF assms, of "js_mul js p s" "js_neg s"]
      js_mul_neg [OF assms, of s "js_mul js p s"]
    by (simp only: js_mul_commute [of js "js_mul js p s"] js_neg_neg)
  ultimately show ?thesis by simp
qed

lemma js_sub_swap:
  assumes "sign_symmetric js"
  shows "js_sub js (Num a) (Num b) = js_neg (js_sub js (Num b) (Num a))"
proof -
  have "fl js (- (b + - a)) = js_neg (fl js (b + - a))"
    using assms by (simp only: sign_symmetric_def)
  moreover have "- (b + - a) = a + - b"
    by simp
  ultimately show ?thesis
    by (simp add: js_sub_def)
qed

lemma half_sine_neg:
  assumes "sign_symmetric js"
  shows "Math_sin js (js_div js (toRad js (js_neg x)) (Num 2))
         = js_neg (Math_sin js (js_div js (toRad js x) (Num 2)))"
proof -
  have fl: "fl js (- y) = js_neg (fl js y)" and sine: "m_sin js (- y) = js_neg (m_sin js y)" for y
    using assms by (simp_all add: sign_symmetric_def)
  define k where "k = js_div js (Math_PI js) (Num 180)"
  have "toRad js (js_neg x) = js_neg (toRad js x)"
    unfolding toRad_def k_def [symmetric] by (rule js_mul_neg [OF assms])
  moreover have "js_div js (js_neg y) (Num 2) = js_neg (js_div js y (Num 2))" for y
    by (cases y) (simp_all add: fl)
  moreover have "Math_sin js (js_neg y) = js_neg (Math_sin js y)" for y
    by (cases y) (simp_all add: sine)
  ultimately show ?thesis by simp
qed

lemma calculateDistance_swap:
  assumes "sign_symmetric js"
  shows "calculateDistance js (Num lat2) (Num lng2) (Num lat1) (Num lng1)
         = calculateDistance js (Num lat1) (Num lng1) (Num lat2) (Num lng2)"
proof -
  define sLat where "sLat = Math_sin js (js_div js (toRad js (js_sub js (Num lat2) (Num lat1))) (Num 2))"
  define sLng where "sLng = Math_sin js (js_div js (toRad js (js_sub js (Num lng2) (Num lng1))) (Num 2))"
  define c1 where "c1 = Math_cos js (toRad js (Num lat1))"
  define c2 where "c2 = Math_cos js (toRad js (Num lat2))"
  have lat: "Math_sin js (js_div js (toRad js (js_sub js (Num lat1) (Num lat2))) (Num 2)) = js_neg sLat"
    unfolding sLat_def js_sub_swap [OF assms, of lat1 lat2] by (rule half_sine_neg [OF assms])
  have lng: "Math_sin js (js_div js (toRad js (js_sub js (Num lng1) (Num lng2))) (Num 2)) = js_neg sLng"
    unfolding sLng_def js_sub_swap [OF assms, of lng1 lng2] by (rule half_sine_neg [OF assms])
  have "js_add js (js_mul js (js_neg sLat) (js_neg sLat))
          (js_mul js (js_mul js (js_mul js c2 c1) (js_neg sLng)) (js_neg sLng))
        = js_add js (js_mul js sLat sLat) (js_mul js (js_mul js (js_mul js c1 c2) sLng) sLng)"
    using js_mul_neg [OF assms, of sLat "js_neg sLat"] js_mul_neg [OF assms, of sLat sLat]
    by (simp only: js_mul_neg_neg [OF assms] js_mul_commute [of js c2 c1]
        js_mul_commute [of js sLat "js_neg sLat"] js_neg_neg)
  then show ?thesis
    unfolding calculateDistance_def Let_def lat lng
    by (simp only: sLat_def [symmetric] sLng_def [symmetric] c1_def [symmetric] c2_def [symmetric])
qed

text \<open>
  Claim C10. The Haversine distance is symmetric in its end points: for all finite
  \<open>lat1\<close>, \<open>lng1\<close>, \<open>lat2\<close>, \<open>lng2\<close>, \<open>calculateDistance(lat1, lng1, lat2, lng2)\<close> equals
  \<open>calculateDistance(lat2, lng2, lat1, lng1)\<close>. Finite numbers are the values \<open>Num x\<close>.
  The first part is the claim on exact arithmetic; the second part is the claim on every
  platform whose rounding and sine are symmetric about zero.
\<close>

theorem calculateDistance_symmetric:
  "calculateDistance exact_platform (Num lat1) (Num lng1) (Num lat2) (Num lng2)
   = calculateDistance exact_platform (Num lat2) (Num lng2) (Num lat1) (Num lng1)
   \<and> (sign_symmetric js \<longrightarrow>
        calculateDistance js (Num lat1) (Num lng1) (Num lat2) (Num lng2)
        = calculateDistance js (Num lat2) (Num lng2) (Num lat1) (Num lng1))"
  by (simp add: calculateDistance_Num hav_km_sym calculateDistance_swap)

text \<open>Seoul and Busan, in both orders.\<close>

theorem calculateDistance_symmetric_witness:
  "calculateDistance exact_platform (Num 37.5665) (Num 126.9780) (Num 35.1796) (Num 129.0756)
   = calculateDistance exact_platform (Num 35.1796) (Num 129.0756) (Num 37.5665) (Num 126.9780)"
  using calculateDistance_symmetric [of "37.5665" "126.9780" "35.1796" "129.0756" exact_platform]
    sign_symmetric_exact
  by blast

section \<open>Idempotence of the deduplication\<close>

lemma seen_ok_Nil: "seen_ok key []"
  by (simp add: seen_ok_def)

lemma seen_ok_snoc:
  "seen_ok key seen \<Longrightarrow> key p \<notin> fst ` set seen \<Longrightarrow> seen_ok key (seen @ [(key p, p)])"
  by (simp add: seen_ok_def)

lemma seen_loop_ok: "seen_ok key seen \<Longrightarrow> seen_ok key (seen_loop key seen pois)"
  by (induction pois arbitrary: seen) (simp_all add: seen_ok_snoc)

text \<open>Running the loop over the values of a well-formed map rebuilds the map, entry by
  entry: no key is met twice.\<close>

lemma seen_loop_replay:
  "seen_ok key (acc @ seen) \<Longrightarrow> seen_loop key acc (map snd seen) = acc @ seen"
proof (induction seen arbitrary: acc)
  case Nil
  then show ?case by simp
next
  case (Cons e seen)
  obtain k p where e: "e = (k, p)" by (cases e)
  from Cons.prems have k: "k = key p" and fresh: "k \<notin> fst ` set acc"
    by (simp_all add: seen_ok_def e)
  from Cons.prems have "seen_ok key ((acc @ [(k, p)]) @ seen)"
    by (simp add: e)
  then have "seen_loop key (acc @ [(k, p)]) (map snd seen) = (acc @ [(k, p)]) @ seen"
    by (rule Cons.IH)
  then show ?case
    using k fresh by (simp add: e)
qed

text \<open>
  Claim C9. The deduplication of points of interest, keyed by the name and the coordinates
  rounded to four decimals, is idempotent: for every list of places, deduplicating the
  deduplicated list gives the same list.
\<close>

theorem deduplicatePOIs_idempotent:
  "deduplicatePOIs (deduplicatePOIs pois) = deduplicatePOIs pois"
proof -
  have "seen_ok poi_key ([] @ seen_loop poi_key [] pois)"
    using seen_loop_ok [OF seen_ok_Nil] by simp
  then have "seen_loop poi_key [] (map snd (seen_loop poi_key [] pois))
             = [] @ seen_loop poi_key [] pois"
    by (rule seen_loop_replay)
  then show ?thesis
    by (simp add: deduplicatePOIs_def)
qed

text \<open>On the sample places the second is dropped as a duplicate of the first, and a second
  run changes nothing.\<close>

theorem deduplicatePOIs_idempotent_witness:
  "deduplicatePOIs [sample_place_a, sample_place_b, sample_place_c] = [sample_place_a, sample_place_c]
   \<and> deduplicatePOIs [sample_place_a, sample_place_c] = [sample_place_a, sample_place_c]"
proof -
  have first: "deduplicatePOIs [sample_place_a, sample_place_b, sample_place_c]
               = [sample_place_a, sample_place_c]"
    by (simp add: deduplicatePOIs_def poi_key_def sample_place_a_def sample_place_b_def
        sample_place_c_def)
  show ?thesis
    using deduplicatePOIs_idempotent [of "[sample_place_a, sample_place_b, sample_place_c]"]
    by (simp only: first simp_thms)
qed


section \<open>Selection of the optimal route\<close>

text \<open>On numbers other than \<open>NaN\<close> the comparison \<open><\<close> is a strict total order.\<close>

lemma js_lt_trans: "js_lt a b \<Longrightarrow> js_lt b c \<Longrightarrow> js_lt a c"
  by (cases a; cases b; cases c) simp_all

lemma js_lt_le_trans: "js_lt a b \<Longrightarrow> js_le b c \<Longrightarrow> js_lt a c"
  by (auto simp: js_le_def dest: js_lt_trans)

lemma js_not_lt_le: "\<not> isNaN a \<Longrightarrow> \<not> isNaN b \<Longrightarrow> \<not> js_lt a b \<Longrightarrow> js_le b a"
  by (cases a; cases b) (auto simp: js_le_def)

lemma js_lt_imp_le: "js_lt a b \<Longrightarrow> js_le a b"
  by (simp add: js_le_def)

lemma js_le_refl: "\<not> isNaN a \<Longrightarrow> js_le a a"
  by (simp add: js_le_def)

text \<open>A left fold with \<open>argmin_step\<close> returns the first element of least score: every
  element before it has a strictly greater score, every element after it a score at least
  as great.\<close>

lemma foldl_argmin_first:
  assumes "\<forall>x \<in> set (b # xs). \<not> isNaN (score x)"
  shows "\<exists>pre r post. b # xs = pre @ r # post \<and> foldl (argmin_step score) b xs = r
           \<and> (\<forall>x \<in> set pre. js_lt (score r) (score x))
           \<and> (\<forall>x \<in> set post. js_le (score r) (score x))"
  using assms
proof (induction xs rule: rev_induct)
  case Nil
  show ?case
    by (intro exI [of _ "[]"] exI [of _ b]) simp
next
  case (snoc x xs)
  then obtain pre r post where split: "b # xs = pre @ r # post"
    and best: "foldl (argmin_step score) b xs = r"
    and before: "\<forall>y \<in> set pre. js_lt (score r) (score y)"
    and after: "\<forall>y \<in> set post. js_le (score r) (score y)"
    by auto
  have r_in: "r \<in> set (b # xs)" unfolding split by simp
  have nan: "\<not> isNaN (score x)" "\<not> isNaN (score r)"
    using snoc.prems r_in by auto
  show ?case
  proof (cases "js_lt (score x) (score r)")
    case True
    have s: "b # xs @ [x] = (pre @ r # post) @ x # []"
      using split by simp
    have "\<forall>y \<in> set (pre @ r # post). js_lt (score x) (score y)"
      using True before after by (auto intro: js_lt_trans js_lt_le_trans)
    moreover have "foldl (argmin_step score) b (xs @ [x]) = x"
      using True best by (simp add: argmin_step_def)
    ultimately show ?thesis
      using s by (intro exI [of _ "pre @ r # post"] exI [of _ x] exI [of _ "[]"]) simp
  next
    case False
    have s: "b # xs @ [x] = pre @ r # (post @ [x])"
      using split by simp
    have "js_le (score r) (score x)"
      using False nan by (intro js_not_lt_le) simp_all
    then have "\<forall>y \<in> set (post @ [x]). js_le (score r) (score y)"
      using after by auto
    moreover have "foldl (argmin_step score) b (xs @ [x]) = r"
      using False best by (simp add: argmin_step_def)
    ultimately show ?thesis
      using s before by (intro exI [of _ pre] exI [of _ r] exI [of _ "post @ [x]"]) simp
  qed
qed

lemma reduce_argmin_first:
  assumes "routes \<noteq> []" "\<forall>x \<in> set routes. \<not> isNaN (score x)"
  shows "\<exists>pre r post. routes = pre @ r # post \<and> reduce (argmin_step score) routes = Some r
           \<and> (\<forall>x \<in> set pre. js_lt (score r) (score x))
           \<and> (\<forall>x \<in> set post. js_le (score r) (score x))"
proof -
  from assms(1) obtain b xs where r: "routes = b # xs" by (cases routes) auto
  show ?thesis
    using foldl_argmin_first [of b xs score] assms(2) unfolding r by simp
qed

lemma fastest_is_reduce:
  "rs \<noteq> [] \<Longrightarrow>
   getOptimalRoute js (Some rs) (Some ''fastest'') = reduce (argmin_step durationMinutes) rs"
  by (simp add: getOptimalRoute_def argmin_step_def [abs_def])

text \<open>The transport cost of \<open>calculateRouteCost\<close> is the transport cost of the
  specification, so the score computed in the reduction of the balanced criterion is the
  composite score of the specification.\<close>

lemma calculateRouteCost_spec: "transport (calculateRouteCost js r) = spec_transportCost js r"
  by (simp add: calculateRouteCost_def spec_transportCost_def Let_def)

lemma balanced_is_reduce:
  "rs \<noteq> [] \<Longrightarrow>
   getOptimalRoute js (Some rs) (Some ''balanced'') = reduce (argmin_step (spec_compositeScore js)) rs"
  by (simp add: getOptimalRoute_def argmin_step_def [abs_def] Let_def spec_compositeScore_def
      calculateRouteCost_spec)

lemma default_is_reduce:
  "rs \<noteq> [] \<Longrightarrow>
   getOptimalRoute js (Some rs) None = reduce (argmin_step (spec_compositeScore js)) rs"
  by (simp add: getOptimalRoute_def argmin_step_def [abs_def] Let_def spec_compositeScore_def
      calculateRouteCost_spec)

text \<open>
  Claim C4. For every non-empty list of routes, \<open>getOptimalRoute(routes, 'fastest')\<close>
  returns a route whose \<open>durationMinutes\<close> is less than or equal to that of every other
  route of the list, and among the routes of least duration the first one in list order;
  for an empty or missing list it returns \<open>null\<close>. The routes are routes of the data model:
  no duration is \<open>NaN\<close>. The list splits at the returned route into the routes before it,
  all strictly slower, and the routes after it, none faster.
\<close>

theorem getOptimalRoute_fastest:
  assumes "\<forall>r \<in> set routes. \<not> isNaN (durationMinutes r)"
  shows "getOptimalRoute js None (Some ''fastest'') = None
         \<and> getOptimalRoute js (Some []) (Some ''fastest'') = None
         \<and> (routes \<noteq> [] \<longrightarrow>
              (\<exists>pre r post. routes = pre @ r # post
                 \<and> getOptimalRoute js (Some routes) (Some ''fastest'') = Some r
                 \<and> (\<forall>x \<in> set pre. js_lt (durationMinutes r) (durationMinutes x))
                 \<and> (\<forall>x \<in> set post. js_le (durationMinutes r) (durationMinutes x))))"
proof -
  have "getOptimalRoute js None (Some ''fastest'') = None"
    by (simp add: getOptimalRoute_def)
  moreover have "getOptimalRoute js (Some []) (Some ''fastest'') = None"
    by (simp add: getOptimalRoute_def)
  moreover have "\<exists>pre r post. routes = pre @ r # post
                 \<and> getOptimalRoute js (Some routes) (Some ''fastest'') = Some r
                 \<and> (\<forall>x \<in> set pre. js_lt (durationMinutes r) (durationMinutes x))
                 \<and> (\<forall>x \<in> set post. js_le (durationMinutes r) (durationMinutes x))"
    if "routes \<noteq> []"
    using reduce_argmin_first [OF that assms] by (simp add: fastest_is_reduce that)
  ultimately show ?thesis by blast
qed

text \<open>The cyclist and the car both take ten minutes; the cyclist comes first in the list.\<close>

theorem getOptimalRoute_fastest_witness:
  "getOptimalRoute exact_platform (Some sample_routes) (Some ''fastest'') = Some sample_route_cycle
   \<and> (\<exists>pre r post. sample_routes = pre @ r # post
         \<and> getOptimalRoute exact_platform (Some sample_routes) (Some ''fastest'') = Some r
         \<and> (\<forall>x \<in> set pre. js_lt (durationMinutes r) (durationMinutes x))
         \<and> (\<forall>x \<in> set post. js_le (durationMinutes r) (durationMinutes x)))"
proof -
  have finite: "\<forall>r \<in> set sample_routes. \<not> isNaN (durationMinutes r)"
    by (simp add: sample_routes_def sample_route_walk_def sample_route_cycle_def
        sample_route_car_def)
  have nonempty: "sample_routes \<noteq> []"
    by (simp add: sample_routes_def)
  have "getOptimalRoute exact_platform (Some sample_routes) (Some ''fastest'') = Some sample_route_cycle"
    by (simp add: getOptimalRoute_def sample_routes_def sample_route_walk_def
        sample_route_cycle_def sample_route_car_def)
  then show ?thesis
    using getOptimalRoute_fastest [OF finite, of exact_platform] nonempty by blast
qed

text \<open>
  Claim C5. For every non-empty list of routes, \<open>getOptimalRoute\<close> with the criterion
  \<open>'balanced'\<close>, which is also the default when no criterion is given, returns a route
  that minimises the composite score \<open>durationMinutes / 60 + transportCost / 10000\<close>, where
  \<open>transportCost\<close> is the transport cost of section 4.4 of the specification
  (\<open>spec_transportCost\<close>: 150 won per kilometre by car, nothing on foot and by bicycle,
  1000 won per 10 km otherwise, rounded), which is the transport cost that
  \<open>calculateRouteCost\<close> computes; it returns the first one in list order among the routes
  of least score. The quotients, the products and the sum are those of the platform, and
  the scores are compared as numbers. No score is \<open>NaN\<close>.
\<close>

theorem getOptimalRoute_balanced:
  assumes "routes \<noteq> []" and "\<forall>r \<in> set routes. \<not> isNaN (spec_compositeScore js r)"
  shows "getOptimalRoute js (Some routes) None = getOptimalRoute js (Some routes) (Some ''balanced'')
         \<and> (\<exists>pre r post. routes = pre @ r # post
               \<and> getOptimalRoute js (Some routes) (Some ''balanced'') = Some r
               \<and> (\<forall>x \<in> set pre. js_lt (spec_compositeScore js r) (spec_compositeScore js x))
               \<and> (\<forall>x \<in> set post. js_le (spec_compositeScore js r) (spec_compositeScore js x)))
         \<and> (\<forall>r \<in> set routes. transport (calculateRouteCost js r) = spec_transportCost js r)"
  using reduce_argmin_first [OF assms]
  by (simp add: balanced_is_reduce default_is_reduce assms(1) calculateRouteCost_spec)

text \<open>The car covers the 50 km in 30 minutes for 7500 won, a score of 0.5 + 0.75; the bicycle
  takes 60 minutes and costs nothing, a score of 1. The bicycle is the balanced choice and
  the default one, while the car is the fastest.\<close>

lemma long_scores:
  "spec_compositeScore exact_platform long_route_car = Num (5 / 4)"
  "spec_compositeScore exact_platform long_route_cycle = Num 1"
  by (simp_all add: long_route_car_def long_route_cycle_def spec_compositeScore_def
      spec_transportCost_def Let_def)

theorem getOptimalRoute_balanced_witness:
  "getOptimalRoute exact_platform (Some long_routes) None = Some long_route_cycle
   \<and> getOptimalRoute exact_platform (Some long_routes) (Some ''balanced'') = Some long_route_cycle
   \<and> getOptimalRoute exact_platform (Some long_routes) (Some ''fastest'') = Some long_route_car
   \<and> transport (calculateRouteCost exact_platform long_route_car) = Num 7500
   \<and> (\<exists>pre r post. long_routes = pre @ r # post
         \<and> getOptimalRoute exact_platform (Some long_routes) (Some ''balanced'') = Some r
         \<and> (\<forall>x \<in> set pre. js_lt (spec_compositeScore exact_platform r) (spec_compositeScore exact_platform x))
         \<and> (\<forall>x \<in> set post. js_le (spec_compositeScore exact_platform r) (spec_compositeScore exact_platform x)))"
proof -
  have finite: "\<forall>r \<in> set long_routes. \<not> isNaN (spec_compositeScore exact_platform r)"
    by (simp add: long_routes_def long_scores)
  have nonempty: "long_routes \<noteq> []"
    by (simp add: long_routes_def)
  have "getOptimalRoute exact_platform (Some long_routes) (Some ''balanced'') = Some long_route_cycle"
    unfolding balanced_is_reduce [OF nonempty]
    by (simp add: long_routes_def argmin_step_def long_scores)
  moreover have "getOptimalRoute exact_platform (Some long_routes) (Some ''fastest'') = Some long_route_car"
    by (simp add: getOptimalRoute_def long_routes_def long_route_car_def long_route_cycle_def)
  moreover have "transport (calculateRouteCost exact_platform long_route_car) = Num 7500"
    by (simp add: calculateRouteCost_def long_route_car_def Let_def)
  ultimately show ?thesis
    using getOptimalRoute_balanced [OF nonempty finite] by simp
qed

section \<open>Trip cost\<close>

lemma Math_max_Num: "Math_max (Num a) (Num b) = Num (max a b)"
  by (simp add: Math_max_def max_def)

text \<open>A missing property of the parameters takes its default: three days, the standard
  levels, no places.\<close>

lemma calculateTripCost_defaults:
  "calculateTripCost js route duration' accommodationLevel foodLevel places
   = calculateTripCost js route
       (Some (case duration' of None \<Rightarrow> Num 3 | Some d \<Rightarrow> d))
       (Some (case accommodationLevel of None \<Rightarrow> ''standard'' | Some l \<Rightarrow> l))
       (Some (case foodLevel of None \<Rightarrow> ''standard'' | Some l \<Rightarrow> l))
       (Some (case places of None \<Rightarrow> [] | Some ps \<Rightarrow> ps))"
proof -
  have p: "(case places of None \<Rightarrow> Some [] | Some ps \<Rightarrow> Some ps)
           = Some (case places of None \<Rightarrow> [] | Some ps \<Rightarrow> ps)"
    by (cases places) simp_all
  show ?thesis
    unfolding calculateTripCost_def by (simp only: option.case p)
qed


text \<open>On a platform that rounds to the nearest double, sums and products of integers are
  exact as long as they have at most 53 bits.\<close>

lemma js_add_int:
  assumes "ieee_double js" and "\<bar>a + b\<bar> \<le> 2 ^ 53"
  shows "js_add js (Num (of_int a)) (Num (of_int b)) = Num (of_int (a + b))"
  using fl_int [OF assms] by simp

lemma js_mul_int:
  assumes "ieee_double js" and "\<bar>a * b\<bar> \<le> 2 ^ 53"
  shows "js_mul js (Num (of_int a)) (Num (of_int b)) = Num (of_int (a * b))"
  using fl_int [OF assms] by simp

text \<open>The rate of an activity is one of the six rates of the table or the default rate,
  at most 50000 won; the rate per kilometre is 150 or 100 won.\<close>

lemma activity_rate:
  "\<exists>k::int. js_or (lookup_num COSTS_activities category) (Num 10000) = Num (of_int k)
             \<and> 0 \<le> k \<and> k \<le> 50000"
proof -
  have "js_or (lookup_num COSTS_activities category) (Num 10000)
        \<in> {Num 5000, Num 10000, Num 15000, Num 50000, Num 8000, Num 30000}"
    by (simp add: js_or_def lookup_num_def COSTS_activities_def)
  then consider "js_or (lookup_num COSTS_activities category) (Num 10000) = Num (of_int 5000)"
    | "js_or (lookup_num COSTS_activities category) (Num 10000) = Num (of_int 10000)"
    | "js_or (lookup_num COSTS_activities category) (Num 10000) = Num (of_int 15000)"
    | "js_or (lookup_num COSTS_activities category) (Num 10000) = Num (of_int 50000)"
    | "js_or (lookup_num COSTS_activities category) (Num 10000) = Num (of_int 8000)"
    | "js_or (lookup_num COSTS_activities category) (Num 10000) = Num (of_int 30000)"
    by auto
  then show ?thesis
    by cases (rule exI, erule conjI, simp)+
qed

lemma transport_rate:
  "js_or (lookup_num COSTS_transport profile') (lookup_num COSTS_transport ''public-transport'')
   \<in> {Num 150, Num 100}"
  by (simp add: js_or_def lookup_num_def COSTS_transport_def)

text \<open>The cost of the activities is a sum of integers, each addition exact.\<close>

lemma activities_fold_int:
  assumes "ieee_double js"
  shows "0 \<le> a \<Longrightarrow> a + 50000 * int (length ps) \<le> 2 ^ 53 \<Longrightarrow>
         \<exists>k. foldl (\<lambda>total place.
                 let category = (if poi_category place = [] then ''culture'' else poi_category place);
                     cost = js_or (lookup_num COSTS_activities category) (Num 10000)
                 in js_add js total cost) (Num (of_int a)) ps = Num (of_int k)
              \<and> a \<le> k \<and> k \<le> a + 50000 * int (length ps)"
proof (induction ps arbitrary: a)
  case Nil
  then show ?case by simp
next
  case (Cons p ps)
  obtain c :: int where c: "js_or (lookup_num COSTS_activities
                 (if poi_category p = [] then ''culture'' else poi_category p)) (Num 10000)
                 = Num (of_int c)" "0 \<le> c" "c \<le> 50000"
    using activity_rate by blast
  have "\<bar>a + c\<bar> \<le> 2 ^ 53"
    using Cons.prems c(2,3) by simp
  from fl_int [OF assms this]
  have step: "fl js (real_of_int a + real_of_int c) = Num (real_of_int a + real_of_int c)"
    by simp
  have "0 \<le> a + c" "a + c + 50000 * int (length ps) \<le> 2 ^ 53"
    using Cons.prems c(2,3) by simp_all
  from Cons.IH [OF this] obtain k where
    k: "foldl (\<lambda>total place.
                 let category = (if poi_category place = [] then ''culture'' else poi_category place);
                     cost = js_or (lookup_num COSTS_activities category) (Num 10000)
                 in js_add js total cost) (Num (of_int (a + c))) ps = Num (of_int k)"
       "a + c \<le> k" "k \<le> a + c + 50000 * int (length ps)"
    by blast
  show ?case
    using k c(2,3) by (intro exI [of _ k]) (simp add: Let_def c(1) step)
qed

lemma calculateActivitiesCost_int:
  assumes "ieee_double js" and "\<forall>ps. places = Some ps \<longrightarrow> length ps \<le> 1000000"
  shows "\<exists>k. calculateActivitiesCost js places = Num (of_int k) \<and> 0 \<le> k \<and> k \<le> 50000000000"
proof (cases places)
  case None
  then show ?thesis
    by (intro exI [of _ 0]) (simp add: calculateActivitiesCost_def)
next
  case (Some ps)
  with assms(2) have len: "int (length ps) \<le> 1000000"
    by simp
  then have "(0::int) + 50000 * int (length ps) \<le> 2 ^ 53"
    by simp
  from activities_fold_int [OF assms(1) _ this] obtain k where
    k: "foldl (\<lambda>total place.
                 let category = (if poi_category place = [] then ''culture'' else poi_category place);
                     cost = js_or (lookup_num COSTS_activities category) (Num 10000)
                 in js_add js total cost) (Num (of_int 0)) ps = Num (of_int k)"
       "0 \<le> k" "k \<le> 0 + 50000 * int (length ps)"
    by blast
  from k(3) len have "k \<le> 50000000000"
    by simp
  with k(1,2) show ?thesis
    unfolding Some by (intro exI [of _ k]) (auto simp: calculateActivitiesCost_def)
qed

text \<open>The transport cost of a route of at most a million kilometres is an integer of at
  most 150 million won.\<close>

lemma calculateTransportCost_int:
  assumes "ieee_double js"
    and "\<forall>r. route = Some r \<longrightarrow>
           (\<exists>n f. distance r = Fixed n f \<and> 0 \<le> n \<and> of_int n \<le> 1000000 * (10::real) ^ f)"
  shows "\<exists>k. calculateTransportCost js route = Num (of_int k) \<and> 0 \<le> k \<and> k \<le> 150000000"
proof (cases route)
  case None
  then show ?thesis
    by (intro exI [of _ 0]) (simp add: calculateTransportCost_def)
next
  case (Some r)
  with assms(2) obtain n f where d: "distance r = Fixed n f" "0 \<le> n"
    "of_int n \<le> 1000000 * (10::real) ^ f"
    by blast
  define x where "x = real_of_int n / 10 ^ f"
  have x: "of_int 0 \<le> x" "x \<le> of_int 1000000"
    using d(2,3) by (simp_all add: x_def field_simps)
  obtain y where y: "fl js x = Num y" "0 \<le> y" "y \<le> 1000000"
    using fl_between [OF assms(1) x] by auto
  have dist: "js_or (parseFloat js (distance r)) (Num 0) = Num y"
    by (simp add: d(1) x_def [symmetric] y(1) js_or_def)
  define c where "c = js_or (lookup_num COSTS_transport (if profile r = [] then ''driving-car'' else profile r))
                        (lookup_num COSTS_transport ''public-transport'')"
  have "c \<in> {Num 150, Num 100}"
    unfolding c_def by (rule transport_rate)
  then obtain q where q: "c = Num q" "0 \<le> q" "q \<le> 150"
    by auto
  have "0 \<le> y * q"
    using y(2) q(2) by simp
  moreover have "y * q \<le> 1000000 * 150"
    using y(2,3) q(2,3) by (intro mult_mono) simp_all
  ultimately have "of_int 0 \<le> y * q" "y * q \<le> of_int 150000000"
    by simp_all
  from fl_between [OF assms(1) this] obtain z where z: "fl js (y * q) = Num z" "0 \<le> z" "z \<le> 150000000"
    by auto
  have "calculateTransportCost js route = Num (of_int \<lfloor>z + 1 / 2\<rfloor>)"
    unfolding Some calculateTransportCost_def Let_def option.case dist c_def [symmetric]
    by (simp add: q(1) z(1))
  moreover have "0 \<le> \<lfloor>z + 1 / 2\<rfloor>" "\<lfloor>z + 1 / 2\<rfloor> \<le> 150000000"
    using z(2,3) by linarith+
  ultimately show ?thesis
    by blast
qed

text \<open>
  Claim C7. For every valid input to \<open>calculateTripCost\<close>, also with no places and with a
  duration of one day, the total is the sum of the four components transport,
  accommodation, food and activities, the accommodation is the nightly rate times
  \<open>max(0, duration - 1)\<close> and the food is the daily rate times the duration. A valid input
  has a whole number of days, at most a million; two levels of the table; no route, or a
  route of at most a million kilometres; and at most a million places. The profile of the
  route and the categories of the places do not name a property inherited from
  \<open>Object.prototype\<close>. The platform rounds to the nearest double; for these inputs every
  component is an integer of at most 53 bits, and the products and the sums are exact.
\<close>

theorem calculateTripCost_total:
  assumes "ieee_double js"
    and "accommodationLevel \<in> {''budget'', ''standard'', ''luxury''}"
    and "foodLevel \<in> {''budget'', ''standard'', ''luxury''}"
    and "days \<le> 1000000"
    and "\<forall>r. route = Some r \<longrightarrow>
           profile r \<notin> set Object_prototype_keys
           \<and> (\<exists>n f. distance r = Fixed n f \<and> 0 \<le> n \<and> of_int n \<le> 1000000 * (10::real) ^ f)"
    and "\<forall>ps. places = Some ps \<longrightarrow>
           length ps \<le> 1000000 \<and> (\<forall>p \<in> set ps. poi_category p \<notin> set Object_prototype_keys)"
  shows "\<exists>t nightly daily v.
           lookup_num COSTS_accommodation accommodationLevel = Num nightly
           \<and> lookup_num COSTS_food foodLevel = Num daily
           \<and> (let c = calculateTripCost js route (Some (Num (of_nat days))) (Some accommodationLevel)
                         (Some foodLevel) places
                in tc_transport c = Num t
                   \<and> accommodation c = Num (nightly * max 0 (of_nat days - 1))
                   \<and> food c = Num (daily * of_nat days)
                   \<and> activities c = Num v
                   \<and> total c = Num (t + nightly * max 0 (of_nat days - 1) + daily * of_nat days + v))"
proof -
  note js = assms(1)
  obtain t :: int where t: "calculateTransportCost js route = Num (of_int t)" "0 \<le> t" "t \<le> 150000000"
    using calculateTransportCost_int [OF js, of route] assms(5) by blast
  have "\<forall>ps. (case places of None \<Rightarrow> Some [] | Some ps \<Rightarrow> Some ps) = Some ps
              \<longrightarrow> length ps \<le> 1000000"
    using assms(6) by (cases places) simp_all
  from calculateActivitiesCost_int [OF js this] obtain v :: int where
    v: "calculateActivitiesCost js (case places of None \<Rightarrow> Some [] | Some ps \<Rightarrow> Some ps) = Num (of_int v)"
       "0 \<le> v" "v \<le> 50000000000"
    by blast
  obtain nightly :: int where
    n: "lookup_num COSTS_accommodation accommodationLevel = Num (of_int nightly)"
       "0 \<le> nightly" "nightly \<le> 300000"
    using assms(2) by (auto simp: lookup_num_def COSTS_accommodation_def)
  obtain daily :: int where
    d: "lookup_num COSTS_food foodLevel = Num (of_int daily)" "0 \<le> daily" "daily \<le> 150000"
    using assms(3) by (auto simp: lookup_num_def COSTS_food_def)
  define nights :: int where "nights = max 0 (int days - 1)"
  have days: "0 \<le> int days" "int days \<le> 1000000"
    using assms(4) by simp_all
  have nights: "0 \<le> nights" "nights \<le> 1000000"
    using days by (simp_all add: nights_def)
  have "fl js (of_int (int days - 1)) = Num (of_int (int days - 1))"
    using days by (intro fl_int [OF js]) simp
  then have sub: "js_sub js (Num (of_nat days)) (Num 1) = Num (of_int (int days - 1))"
    by (simp add: js_sub_def)
  have mx: "Math_max (Num 0) (Num (of_int (int days - 1))) = Num (of_int nights)"
    by (simp add: Math_max_Num nights_def max_def)
  have "nightly * nights \<le> 300000 * 1000000"
    using n(2,3) nights by (intro mult_mono) simp_all
  then have a_bound: "0 \<le> nightly * nights" "nightly * nights \<le> 300000000000"
    using n(2) nights(1) by simp_all
  have "daily * int days \<le> 150000 * 1000000"
    using d(2,3) days by (intro mult_mono) simp_all
  then have f_bound: "0 \<le> daily * int days" "daily * int days \<le> 150000000000"
    using d(2) days(1) by simp_all
  have acc: "js_mul js (Num (of_int nightly)) (Num (of_int nights)) = Num (of_int (nightly * nights))"
    using a_bound by (intro js_mul_int [OF js]) simp
  have food: "js_mul js (Num (of_int daily)) (Num (of_int (int days))) = Num (of_int (daily * int days))"
    using f_bound by (intro js_mul_int [OF js]) simp
  have s1: "js_add js (Num (of_int t)) (Num (of_int (nightly * nights)))
            = Num (of_int (t + nightly * nights))"
    using t(2,3) a_bound by (intro js_add_int [OF js]) simp
  have s2: "js_add js (Num (of_int (t + nightly * nights))) (Num (of_int (daily * int days)))
            = Num (of_int (t + nightly * nights + daily * int days))"
    using t(2,3) a_bound f_bound by (intro js_add_int [OF js]) simp
  have s3: "js_add js (Num (of_int (t + nightly * nights + daily * int days))) (Num (of_int v))
            = Num (of_int (t + nightly * nights + daily * int days + v))"
    using t(2,3) a_bound f_bound v(2,3) by (intro js_add_int [OF js]) simp
  have real_nights: "real_of_int nights = max 0 (real days - 1)"
    by (simp add: nights_def max_def)
  have run: "calculateTripCost js route (Some (Num (of_nat days))) (Some accommodationLevel)
               (Some foodLevel) places
             = \<lparr>tc_transport = Num (of_int t),
                accommodation = Num (of_int (nightly * nights)),
                food = Num (of_int (daily * int days)),
                activities = Num (of_int v),
                total = Num (of_int (t + nightly * nights + daily * int days + v)),
                breakdown =
                  \<lparr>transportPercent = toFixed (js_mul js (js_div js (Num (of_int t))
                      (Num (of_int (t + nightly * nights + daily * int days + v)))) (Num 100)) 1,
                   accommodationPercent = toFixed (js_mul js (js_div js (Num (of_int (nightly * nights)))
                      (Num (of_int (t + nightly * nights + daily * int days + v)))) (Num 100)) 1,
                   foodPercent = toFixed (js_mul js (js_div js (Num (of_int (daily * int days)))
                      (Num (of_int (t + nightly * nights + daily * int days + v)))) (Num 100)) 1,
                   activitiesPercent = toFixed (js_mul js (js_div js (Num (of_int v))
                      (Num (of_int (t + nightly * nights + daily * int days + v)))) (Num 100)) 1\<rparr>\<rparr>"
    unfolding calculateTripCost_def Let_def option.case t(1) v(1) n(1) d(1) sub mx acc
      food [unfolded of_int_of_nat_eq] s1 s2 s3
    by (rule refl)
  show ?thesis
    unfolding run Let_def
    by (intro exI [of _ "of_int t"] exI [of _ "of_int nightly"] exI [of _ "of_int daily"]
        exI [of _ "of_int v"])
       (simp add: n(1) d(1) real_nights [symmetric])
qed

text \<open>One day by car at the standard levels with no places, on exact arithmetic: 465 won
  of fuel for 3.1 km, no night, 60000 won of food.\<close>

theorem calculateTripCost_total_witness:
  "calculateTripCost exact_platform (Some sample_route_car) (Some (Num 1)) (Some ''standard'') (Some ''standard'')
     (Some [])
   = \<lparr>tc_transport = Num 465, accommodation = Num 0, food = Num 60000, activities = Num 0,
      total = Num 60465,
      breakdown = \<lparr>transportPercent = Fixed 8 1, accommodationPercent = Fixed 0 1,
                   foodPercent = Fixed 992 1, activitiesPercent = Fixed 0 1\<rparr>\<rparr>
   \<and> (\<exists>t nightly daily v.
           lookup_num COSTS_accommodation ''standard'' = Num nightly
           \<and> lookup_num COSTS_food ''standard'' = Num daily
           \<and> (let c = calculateTripCost exact_platform (Some sample_route_car) (Some (Num (of_nat 1)))
                         (Some ''standard'') (Some ''standard'') (Some [])
                in tc_transport c = Num t
                   \<and> accommodation c = Num (nightly * max 0 (of_nat 1 - 1))
                   \<and> food c = Num (daily * of_nat 1)
                   \<and> activities c = Num v
                   \<and> total c = Num (t + nightly * max 0 (of_nat 1 - 1) + daily * of_nat 1 + v)))"
proof -
  have level: "''standard'' \<in> {''budget'', ''standard'', ''luxury''}"
    by simp
  have days: "(1::nat) \<le> 1000000"
    by simp
  have route: "\<forall>r. Some sample_route_car = Some r \<longrightarrow>
                 profile r \<notin> set Object_prototype_keys
                 \<and> (\<exists>n f. distance r = Fixed n f \<and> 0 \<le> n \<and> of_int n \<le> 1000000 * (10::real) ^ f)"
    by (simp add: sample_route_car_def Object_prototype_keys_def)
  have places: "\<forall>ps. Some [] = Some ps \<longrightarrow>
                  length ps \<le> 1000000 \<and> (\<forall>p \<in> set ps. poi_category p \<notin> set Object_prototype_keys)"
    by simp
  have "calculateTripCost exact_platform (Some sample_route_car) (Some (Num 1)) (Some ''standard'')
          (Some ''standard'') (Some [])
        = \<lparr>tc_transport = Num 465, accommodation = Num 0, food = Num 60000, activities = Num 0,
           total = Num 60465,
           breakdown = \<lparr>transportPercent = Fixed 8 1, accommodationPercent = Fixed 0 1,
                        foodPercent = Fixed 992 1, activitiesPercent = Fixed 0 1\<rparr>\<rparr>"
    by (simp add: calculateTripCost_def calculateTransportCost_def calculateActivitiesCost_def
        Let_def lookup_num_def COSTS_accommodation_def COSTS_food_def COSTS_transport_def
        Math_max_Num js_sub_def sample_route_car_def js_or_def)
  then show ?thesis
    using calculateTripCost_total [OF ieee_double_exact level level days route places] by blast
qed

text \<open>
  Claim C6. For every input to \<open>calculateTripCost\<close>, each percentage of the breakdown is
  its component divided by the total times 100, rounded to one decimal; and when the
  total is 0, every percentage is 0, not \<open>NaN\<close>. The code divides without looking at the
  total: with no route, a duration of 0 days and no places every component and the total
  are 0, and the four percentages are the text \<open>NaN\<close>, on every platform that rounds to
  the nearest double.
\<close>

theorem calculateTripCost_zero_total:
  assumes "ieee_double js"
  shows "calculateTripCost js None (Some (Num 0)) (Some ''standard'') (Some ''standard'') (Some [])
   = \<lparr>tc_transport = Num 0, accommodation = Num 0, food = Num 0, activities = Num 0,
      total = Num 0,
      breakdown = \<lparr>transportPercent = StrNaN, accommodationPercent = StrNaN,
                   foodPercent = StrNaN, activitiesPercent = StrNaN\<rparr>\<rparr>"
proof -
  have zero: "fl js 0 = Num 0" and minus: "fl js (- 1) = Num (- 1)"
    using fl_int [OF assms, of 0] fl_int [OF assms, of "- 1"] by simp_all
  show ?thesis
    by (simp add: calculateTripCost_def calculateTransportCost_def calculateActivitiesCost_def
        Let_def lookup_num_def COSTS_accommodation_def COSTS_food_def Math_max_Num js_sub_def
        zero minus)
qed

text \<open>The same call on exact arithmetic.\<close>

theorem calculateTripCost_zero_total_witness:
  "calculateTripCost exact_platform None (Some (Num 0)) (Some ''standard'') (Some ''standard'') (Some [])
   = \<lparr>tc_transport = Num 0, accommodation = Num 0, food = Num 0, activities = Num 0,
      total = Num 0,
      breakdown = \<lparr>transportPercent = StrNaN, accommodationPercent = StrNaN,
                   foodPercent = StrNaN, activitiesPercent = StrNaN\<rparr>\<rparr>"
  using calculateTripCost_zero_total [OF ieee_double_exact] .

text \<open>Away from a total of 0 the percentages are as the claim says: with finite components
  and a total other than 0 each is the component over the total times 100, printed with one
  decimal.\<close>

lemma calculateTripCost_percentages:
  assumes "calculateTripCost js route duration' accommodationLevel foodLevel places = c"
  shows "breakdown c =
           \<lparr>transportPercent = toFixed (js_mul js (js_div js (tc_transport c) (total c)) (Num 100)) 1,
            accommodationPercent = toFixed (js_mul js (js_div js (accommodation c) (total c)) (Num 100)) 1,
            foodPercent = toFixed (js_mul js (js_div js (food c) (total c)) (Num 100)) 1,
            activitiesPercent = toFixed (js_mul js (js_div js (activities c) (total c)) (Num 100)) 1\<rparr>"
  using assms by (auto simp: calculateTripCost_def Let_def)

section \<open>Address search in the curated table\<close>

text \<open>Each of the two loops of \<open>searchPopularCities\<close> appends the results of the matching
  entries in table order.\<close>

lemma foldl_push:
  "foldl (\<lambda>results (key, c). if P key c then results @ [f c] else results) acc xs
   = acc @ map (\<lambda>(key, c). f c) (filter (\<lambda>(key, c). P key c) xs)"
  by (induction xs arbitrary: acc) (auto split: prod.splits)

lemma filter_key_distinct:
  "distinct (map fst xs) \<Longrightarrow> (k, v) \<in> set xs \<Longrightarrow> filter (\<lambda>(k', v'). k' = k) xs = [(k, v)]"
proof (induction xs)
  case Nil
  then show ?case by simp
next
  case (Cons x xs)
  obtain k' v' where x: "x = (k', v')" by (cases x)
  show ?case
  proof (cases "k' = k")
    case True
    with Cons.prems x have "v' = v" and "k \<notin> fst ` set xs"
      by (auto simp: image_iff)
    then have "filter (\<lambda>(k', v'). k' = k) xs = []"
      by (auto simp: filter_empty_conv image_iff)
    with True \<open>v' = v\<close> show ?thesis by (simp add: x)
  next
    case False
    with Cons x show ?thesis by auto
  qed
qed

text \<open>The keys of the table are distinct, at least two code units long, and unchanged by
  \<open>toLowerCase\<close> and \<open>trim\<close>.\<close>

lemma keys_distinct: "distinct (map fst POPULAR_CITIES)"
  by (simp add: POPULAR_CITIES_def)

lemma keys_normal:
  "\<forall>e \<in> set POPULAR_CITIES.
     toLowerCase (fst e) = fst e \<and> trim (fst e) = fst e \<and> 2 \<le> length (fst e)"
  by (simp add: POPULAR_CITIES_def toLowerCase_def trim_def is_space_def)

lemma searchPopularCities_filter:
  "searchPopularCities query =
     (if query = [] then []
      else
        let normalizedQuery = trim (toLowerCase query);
            exact = map (\<lambda>(key, c). popularResult c)
                      (filter (\<lambda>(key, c). toLowerCase key = normalizedQuery) POPULAR_CITIES);
            partial = map (\<lambda>(key, c). popularResult c)
                        (filter (\<lambda>(key, c). js_includes (toLowerCase key) normalizedQuery
                                    \<or> js_includes (toLowerCase (city_name c)) normalizedQuery)
                           POPULAR_CITIES)
        in take 5 (if exact = [] then partial else exact))"
  by (simp add: searchPopularCities_def Let_def foldl_push)

lemma searchPopularCities_key:
  assumes "(key, c) \<in> set POPULAR_CITIES"
  shows "searchPopularCities key = [popularResult c]"
proof -
  from assms keys_normal have n: "toLowerCase key = key" "trim key = key" "2 \<le> length key"
    by force+
  have "filter (\<lambda>(k, c). toLowerCase k = key) POPULAR_CITIES
        = filter (\<lambda>(k, c). k = key) POPULAR_CITIES"
    using keys_normal by (intro filter_cong) auto
  also have "\<dots> = [(key, c)]"
    using keys_distinct assms by (rule filter_key_distinct)
  finally have "filter (\<lambda>(k, c). toLowerCase k = key) POPULAR_CITIES = [(key, c)]" .
  moreover have "key \<noteq> []"
    using n(3) by auto
  ultimately show ?thesis
    by (simp add: searchPopularCities_filter n Let_def)
qed

text \<open>
  Claim C8. For every query that exactly matches an entry of the curated table, the
  address search returns the name and the coordinates of that entry with no network call
  and no delay: the world, with its request counter, its waiting time and its clock, is
  unchanged; so it is for every query of two code units or more that the table answers.
  The lookup in the table tries the exact match on the key first, then the
  substring match on the key or the display name, and never returns more than 5 results.
\<close>

theorem searchAddress_curated:
  "(\<forall>(key, c) \<in> set POPULAR_CITIES.
       searchAddress js service key w
       = ([\<lparr>sr_name = city_name c, sr_lat = city_lat c, sr_lng = city_lng c,
            sr_type = ''city'', sr_source = ''popular''\<rparr>], w))
   \<and> (2 \<le> length query \<and> searchPopularCities query \<noteq> []
        \<longrightarrow> searchAddress js service query w = (searchPopularCities query, w))
   \<and> length (searchPopularCities query) \<le> 5
   \<and> searchPopularCities query =
       (if query = [] then []
        else
          let normalizedQuery = trim (toLowerCase query);
              exact = map (\<lambda>(key, c). popularResult c)
                        (filter (\<lambda>(key, c). toLowerCase key = normalizedQuery) POPULAR_CITIES);
              partial = map (\<lambda>(key, c). popularResult c)
                          (filter (\<lambda>(key, c). js_includes (toLowerCase key) normalizedQuery
                                      \<or> js_includes (toLowerCase (city_name c)) normalizedQuery)
                             POPULAR_CITIES)
          in take 5 (if exact = [] then partial else exact))"
proof (intro conjI)
  show "\<forall>(key, c) \<in> set POPULAR_CITIES.
          searchAddress js service key w
          = ([\<lparr>sr_name = city_name c, sr_lat = city_lat c, sr_lng = city_lng c,
               sr_type = ''city'', sr_source = ''popular''\<rparr>], w)"
  proof (intro ballI, clarify)
    fix key c
    assume e: "(key, c) \<in> set POPULAR_CITIES"
    with keys_normal have "2 \<le> length key" by force
    then have "key \<noteq> []" "\<not> length key < 2" by auto
    then show "searchAddress js service key w
               = ([\<lparr>sr_name = city_name c, sr_lat = city_lat c, sr_lng = city_lng c,
                    sr_type = ''city'', sr_source = ''popular''\<rparr>], w)"
      by (simp add: searchAddress_def searchPopularCities_key [OF e] popularResult_def)
  qed
  show "2 \<le> length query \<and> searchPopularCities query \<noteq> []
        \<longrightarrow> searchAddress js service query w = (searchPopularCities query, w)"
  proof
    assume a: "2 \<le> length query \<and> searchPopularCities query \<noteq> []"
    then have "query \<noteq> []" "\<not> length query < 2" by auto
    with a show "searchAddress js service query w = (searchPopularCities query, w)"
      by (simp add: searchAddress_def Let_def)
  qed
  show "length (searchPopularCities query) \<le> 5"
    by (simp add: searchPopularCities_def Let_def)
  show "searchPopularCities query =
       (if query = [] then []
        else
          let normalizedQuery = trim (toLowerCase query);
              exact = map (\<lambda>(key, c). popularResult c)
                        (filter (\<lambda>(key, c). toLowerCase key = normalizedQuery) POPULAR_CITIES);
              partial = map (\<lambda>(key, c). popularResult c)
                          (filter (\<lambda>(key, c). js_includes (toLowerCase key) normalizedQuery
                                      \<or> js_includes (toLowerCase (city_name c)) normalizedQuery)
                             POPULAR_CITIES)
          in take 5 (if exact = [] then partial else exact))"
    by (rule searchPopularCities_filter)
qed

text \<open>The query "Seoul" (two Hangul syllables) while the service is unreachable and was
  called 100 ms ago: the entry of the table, and the world as it was.\<close>

theorem searchAddress_curated_witness:
  "searchAddress exact_platform unreachable_service [0xC11C, 0xC6B8] sample_world
   = ([\<lparr>sr_name = [0xC11C, 0xC6B8, 0xD2B9, 0xBCC4, 0xC2DC, 44, 32, 0xB300, 0xD55C, 0xBBFC, 0xAD6D],
        sr_lat = Num 37.5665, sr_lng = Num 126.9780, sr_type = ''city'', sr_source = ''popular''\<rparr>],
      \<lparr>clock = 5000, lastNominatimRequest = 4900, requests = 0, waited = 0\<rparr>)"
proof -
  have entry: "([0xC11C, 0xC6B8],
         \<lparr>city_name = [0xC11C, 0xC6B8, 0xD2B9, 0xBCC4, 0xC2DC, 44, 32, 0xB300, 0xD55C, 0xBBFC, 0xAD6D],
          city_lat = Num 37.5665, city_lng = Num 126.9780\<rparr>) \<in> set POPULAR_CITIES"
    by (simp add: POPULAR_CITIES_def)
  have "\<forall>(key, c) \<in> set POPULAR_CITIES.
          searchAddress exact_platform unreachable_service key sample_world
          = ([\<lparr>sr_name = city_name c, sr_lat = city_lat c, sr_lng = city_lng c,
               sr_type = ''city'', sr_source = ''popular''\<rparr>], sample_world)"
    using searchAddress_curated [of exact_platform unreachable_service sample_world "[]"] by (rule conjunct1)
  from bspec [OF this entry] show ?thesis
    by (simp add: sample_world_def)
qed

text \<open>A query of at least two code units that the table does not answer goes to the
  service: one request, after the rest of the second since the last one.\<close>

lemma searchAddress_service:
  assumes "2 \<le> length query" and "searchPopularCities query = []"
  shows "requests (snd (searchAddress js service query w)) = requests w + 1
         \<and> waited (snd (searchAddress js service query w))
             = waited w + max 0 (NOMINATIM_DELAY - (clock w - lastNominatimRequest w))"
proof -
  from assms(1) have "query \<noteq> []" "\<not> length query < 2" by auto
  then show ?thesis
    using assms(2)
    by (simp add: searchAddress_def Let_def split: nominatim_outcome.splits option.splits)
qed


section \<open>The fallback route is the estimate of the specification\<close>



section \<open>Failures of the routing provider\<close>

text \<open>
  Claim C3 says that a failure of a primary routing attempt is never propagated to the
  caller of \<open>getMultipleRoutes\<close> for that profile, that a fallback route replaces it, and
  that the hard error is signalled if and only if the acquisition of every profile,
  including the construction of its fallback, fails. Between the two sample points 220 m
  apart, with every request to the provider timing out, the attempt for the car fails and
  nothing replaces it: the result holds the routes on foot and by bicycle only. The
  minutes by car are 0.29 before they are rounded. The call is evaluated on exact
  arithmetic; by \<open>block_points_two_routes\<close> it ends in the same way on every platform that
  rounds to the nearest double and computes a distance between 100 m and 300 m for the
  two points.
\<close>

theorem getMultipleRoutes_dropped_counterexample:
  "map_sum id (map profile)
     (getMultipleRoutes exact_platform timeout_provider (Some city_hall) (Some city_hall_block_north))
   = Inr [''foot-walking'', ''cycling-regular'']"
  using block_points_two_routes [OF ieee_double_exact block_distance timeout_provider_fails]
  by (simp add: city_hall_def city_hall_block_north_def)

text \<open>
  Claim C3, amended. A failure of a primary routing attempt (an error status of the
  provider, a timeout, a transport failure) is never propagated to the caller of
  \<open>getMultipleRoutes\<close>: the fallback route takes its place in the result whenever it can be
  built, and the profile is left out otherwise. The fallback route of a profile can be
  built exactly when no coordinate is \<open>NaN\<close> and the distance and the minutes that
  \<open>createFallbackRoute\<close> computes are greater than 0. \<open>getMultipleRoutes\<close> signals "No routes
  could be calculated" if and only if the acquisition of every profile fails, which for a
  profile means that the primary attempt fails and the construction of the fallback fails.
  The result is the list of the acquisitions that did not fail, in the order of the
  profiles. The end points are arrays of two elements; for other arguments the only other
  error is "Invalid coordinates provided".
\<close>

theorem getMultipleRoutes_failures:
  assumes "length s = 2" and "length e = 2"
  shows "(getMultipleRoutes js provider (Some s) (Some e) = Inl NoRoutesCalculated
            \<longleftrightarrow> (\<forall>p \<in> set profiles. routePromise js provider s e p = None))
         \<and> (\<forall>p. routePromise js provider s e p = None \<longleftrightarrow>
                (\<exists>err. getRoute js (provider (p_profile p)) (p_profile p) = Inl err)
                \<and> (\<exists>ferr. createFallbackRoute js s e (p_name p) (p_icon p) (p_profile p) (p_speed p)
                             = Inl ferr))
         \<and> (\<forall>p \<in> set profiles.
                (\<exists>fr. createFallbackRoute js s e (p_name p) (p_icon p) (p_profile p) (p_speed p) = Inr fr)
                \<longleftrightarrow> \<not> isNaN (js_nth s 0) \<and> \<not> isNaN (js_nth s 1)
                    \<and> \<not> isNaN (js_nth e 0) \<and> \<not> isNaN (js_nth e 1)
                    \<and> js_gt (calculateDistance js (js_nth s 1) (js_nth s 0) (js_nth e 1) (js_nth e 0))
                         (Num 0)
                    \<and> js_gt (Math_round (js_mul js (js_div js
                         (js_mul js
                            (calculateDistance js (js_nth s 1) (js_nth s 0) (js_nth e 1) (js_nth e 0))
                            (fl js 1.3)) (p_speed p)) (Num 60))) (Num 0))
         \<and> (\<forall>err. getMultipleRoutes js provider (Some s) (Some e) = Inl err \<longrightarrow> err = NoRoutesCalculated)
         \<and> (\<forall>p \<in> set profiles. \<forall>err fr.
                getRoute js (provider (p_profile p)) (p_profile p) = Inl err
                \<and> createFallbackRoute js s e (p_name p) (p_icon p) (p_profile p) (p_speed p) = Inr fr
                \<longrightarrow> (\<exists>rs. getMultipleRoutes js provider (Some s) (Some e) = Inr rs \<and> fr \<in> set rs))
         \<and> (\<forall>rs. getMultipleRoutes js provider (Some s) (Some e) = Inr rs
                \<longrightarrow> rs = map the (filter (\<lambda>route. route \<noteq> None)
                                    (map (routePromise js provider s e) profiles)))
         \<and> (\<forall>err. getMultipleRoutes js provider start end' = Inl err
                \<longrightarrow> err = InvalidCoordinates \<or> err = NoRoutesCalculated)"
proof (intro conjI)
  let ?routes = "map (routePromise js provider s e) profiles"
  let ?valid = "map the (filter (\<lambda>route. route \<noteq> None) ?routes)"
  have run: "getMultipleRoutes js provider (Some s) (Some e)
             = (if ?valid = [] then Inl NoRoutesCalculated else Inr ?valid)"
    using assms by (simp add: getMultipleRoutes_def Let_def)
  show "getMultipleRoutes js provider (Some s) (Some e) = Inl NoRoutesCalculated
          \<longleftrightarrow> (\<forall>p \<in> set profiles. routePromise js provider s e p = None)"
    unfolding run using valid_routes_empty [of ?routes] by simp
  show "\<forall>p. routePromise js provider s e p = None \<longleftrightarrow>
                (\<exists>err. getRoute js (provider (p_profile p)) (p_profile p) = Inl err)
                \<and> (\<exists>ferr. createFallbackRoute js s e (p_name p) (p_icon p) (p_profile p) (p_speed p)
                             = Inl ferr)"
    by (simp add: routePromise_None)
  show "\<forall>p \<in> set profiles.
          (\<exists>fr. createFallbackRoute js s e (p_name p) (p_icon p) (p_profile p) (p_speed p) = Inr fr)
          \<longleftrightarrow> \<not> isNaN (js_nth s 0) \<and> \<not> isNaN (js_nth s 1)
              \<and> \<not> isNaN (js_nth e 0) \<and> \<not> isNaN (js_nth e 1)
              \<and> js_gt (calculateDistance js (js_nth s 1) (js_nth s 0) (js_nth e 1) (js_nth e 0))
                   (Num 0)
              \<and> js_gt (Math_round (js_mul js (js_div js
                   (js_mul js
                      (calculateDistance js (js_nth s 1) (js_nth s 0) (js_nth e 1) (js_nth e 0))
                      (fl js 1.3)) (p_speed p)) (Num 60))) (Num 0)"
  proof
    fix p
    assume "p \<in> set profiles"
    then have "js_gt (p_speed p) (Num 0)"
      by (auto simp: profiles_def js_gt_Num)
    then show "(\<exists>fr. createFallbackRoute js s e (p_name p) (p_icon p) (p_profile p) (p_speed p) = Inr fr)
          \<longleftrightarrow> \<not> isNaN (js_nth s 0) \<and> \<not> isNaN (js_nth s 1)
              \<and> \<not> isNaN (js_nth e 0) \<and> \<not> isNaN (js_nth e 1)
              \<and> js_gt (calculateDistance js (js_nth s 1) (js_nth s 0) (js_nth e 1) (js_nth e 0))
                   (Num 0)
              \<and> js_gt (Math_round (js_mul js (js_div js
                   (js_mul js
                      (calculateDistance js (js_nth s 1) (js_nth s 0) (js_nth e 1) (js_nth e 0))
                      (fl js 1.3)) (p_speed p)) (Num 60))) (Num 0)"
      unfolding createFallbackRoute_built using assms by simp
  qed
  show "\<forall>err. getMultipleRoutes js provider (Some s) (Some e) = Inl err \<longrightarrow> err = NoRoutesCalculated"
    unfolding run by simp
  show "\<forall>p \<in> set profiles. \<forall>err fr.
                getRoute js (provider (p_profile p)) (p_profile p) = Inl err
                \<and> createFallbackRoute js s e (p_name p) (p_icon p) (p_profile p) (p_speed p) = Inr fr
                \<longrightarrow> (\<exists>rs. getMultipleRoutes js provider (Some s) (Some e) = Inr rs \<and> fr \<in> set rs)"
  proof (intro ballI allI impI)
    fix p err fr
    assume p: "p \<in> set profiles"
      and f: "getRoute js (provider (p_profile p)) (p_profile p) = Inl err
              \<and> createFallbackRoute js s e (p_name p) (p_icon p) (p_profile p) (p_speed p) = Inr fr"
    then have "routePromise js provider s e p = Some fr"
      by (simp add: routePromise_fallback)
    with p have "Some fr \<in> set ?routes"
      by (metis image_eqI set_map)
    then have member: "fr \<in> set ?valid"
      by (rule valid_routes_member)
    then have "?valid \<noteq> []"
      by (metis empty_iff list.set(1))
    then have "getMultipleRoutes js provider (Some s) (Some e) = Inr ?valid"
      unfolding run by (simp only: if_False)
    with member show "\<exists>rs. getMultipleRoutes js provider (Some s) (Some e) = Inr rs \<and> fr \<in> set rs"
      by blast
  qed
  show "\<forall>rs. getMultipleRoutes js provider (Some s) (Some e) = Inr rs
          \<longrightarrow> rs = map the (filter (\<lambda>route. route \<noteq> None)
                              (map (routePromise js provider s e) profiles))"
    unfolding run by (simp split: if_splits)
  show "\<forall>err. getMultipleRoutes js provider start end' = Inl err
          \<longrightarrow> err = InvalidCoordinates \<or> err = NoRoutesCalculated"
    by (auto simp: getMultipleRoutes_def Let_def split: option.splits if_splits)
qed

text \<open>On exact arithmetic: with every request timing out between the two points 11 m
  apart, no acquisition succeeds and the hard error is signalled; with the three kinds of
  failure between two points one degree apart, the fallback route by car is in the
  result.\<close>

theorem getMultipleRoutes_failures_witness:
  "getMultipleRoutes exact_platform timeout_provider (Some city_hall) (Some city_hall_north)
   = Inl NoRoutesCalculated
   \<and> (\<exists>rs fr. getMultipleRoutes exact_platform failing_provider (Some [Num 127, Num 36])
                 (Some [Num 127, Num 37]) = Inr rs
          \<and> fr \<in> set rs \<and> isFallback fr \<and> profile fr = ''driving-car'')"
proof (intro conjI)
  have len: "length city_hall = 2" "length city_hall_north = 2"
    by (simp_all add: city_hall_def city_hall_north_def)
  have d: "calculateDistance exact_platform (js_nth city_hall 1) (js_nth city_hall 0)
             (js_nth city_hall_north 1) (js_nth city_hall_north 0) = Num (6371 * rad 0.0001)"
    using near_distance(1) by (simp add: city_hall_def city_hall_north_def js_nth_def)
  have fails: "\<exists>ferr. createFallbackRoute exact_platform city_hall city_hall_north n i p (Num speed)
                 = Inl ferr"
    if "5 \<le> speed" "speed \<le> 60" for n i p speed
  proof -
    have "160 * (6371 * rad 0.0001) \<le> speed"
      using near_distance(2) that(1) by linarith
    from fallback_fails_near [OF ieee_double_exact that d this] show ?thesis .
  qed
  have "\<forall>p \<in> set profiles. routePromise exact_platform timeout_provider city_hall city_hall_north p = None"
    using fails [of 60] fails [of 5] fails [of 15] timeout_provider_fails
    by (simp add: routePromise_None profiles_def)
  with getMultipleRoutes_failures [OF len, of exact_platform timeout_provider None None]
  show "getMultipleRoutes exact_platform timeout_provider (Some city_hall) (Some city_hall_north)
        = Inl NoRoutesCalculated"
    by blast
next
  let ?car = "\<lparr>p_profile = ''driving-car'', p_name = [0xC790, 0xB3D9, 0xCC28],
               p_icon = ''fa-car'', p_speed = Num 60\<rparr>"
  have len: "length [Num 127, Num 36] = 2" "length [Num 127, Num 37] = 2"
    by simp_all
  have speed: "(5::real) \<le> 60" "(60::real) \<le> 60"
    by simp_all
  have car: "?car \<in> set profiles"
    by (simp add: profiles_def)
  have primary: "getRoute exact_platform (failing_provider (p_profile ?car)) (p_profile ?car)
                 = Inl (ApiError 500)"
    by (simp add: failing_provider_def getRoute_def)
  obtain fr where fr: "createFallbackRoute exact_platform [Num 127, Num 36] [Num 127, Num 37]
                         (p_name ?car) (p_icon ?car) (p_profile ?car) (p_speed ?car) = Inr fr"
    and flags: "isFallback fr" "profile fr = ''driving-car''"
    using fallback_built_far [OF ieee_double_exact speed one_degree_distance,
        of "p_name ?car" "p_icon ?car" "p_profile ?car"]
    by auto
  from getMultipleRoutes_failures [OF len, of exact_platform failing_provider None None]
    car primary fr
  have "\<exists>rs. getMultipleRoutes exact_platform failing_provider (Some [Num 127, Num 36])
               (Some [Num 127, Num 37]) = Inr rs
             \<and> fr \<in> set rs"
    by blast
  with flags show "\<exists>rs fr. getMultipleRoutes exact_platform failing_provider (Some [Num 127, Num 36])
                       (Some [Num 127, Num 37]) = Inr rs
                     \<and> fr \<in> set rs \<and> isFallback fr \<and> profile fr = ''driving-car''"
    by blast
qed

section \<open>The routes of \<open>getMultipleRoutes\<close>\<close>


text \<open>
  The claim also gives every returned route a positive distance and positive minutes. A
  route of the provider is returned as the provider gives it: when the provider answers
  with a route of 3 m and 20 s, the three routes have the distance 0.00 and 0 minutes.
\<close>

lemma getMultipleRoutes_provider_unchecked:
  "map_sum id (map (\<lambda>r. (profile r, distance r, durationMinutes r, isFallback r)))
     (getMultipleRoutes exact_platform short_hop_provider (Some city_hall) (Some city_hall_north))
   = Inr [(''driving-car'', Fixed 0 2, Num 0, False),
          (''foot-walking'', Fixed 0 2, Num 0, False),
          (''cycling-regular'', Fixed 0 2, Num 0, False)]"
  by (simp add: getMultipleRoutes_def routePromise_def getRoute_def short_hop_provider_def
      profiles_def city_hall_def city_hall_north_def Let_def route_core.defs route.defs)




end
